theory Spec2Isabelle
  imports Main
begin

section \<open>Source texts as syntax trees\<close>

text \<open>
  The generators of \<^verbatim>\<open>CodegenService\<close> look at a TypeScript source file only through the
  structural queries of the syntax-tree library: import declarations, export assignments,
  class declarations with their decorators, object literals with their members, and array
  literals with their elements. A source text is represented here by the list of its
  top-level statements; white space and comments are not part of the representation.
  An array literal is kept as the list of the source texts of its elements.
\<close>

datatype 'e object_member =
    PropertyAssignment string 'e
  | ShorthandPropertyAssignment string
  | MethodDeclaration string
  | SpreadAssignment string

datatype expression =
    ArrayLiteralExpression "string list"
  | ObjectLiteralExpression "expression object_member list"
  | OtherExpression string

record decorator =
  decoratorName :: string
  arguments :: "expression list"

record class_declaration =
  cname :: "string option"
  decorators :: "decorator list"
  cbody :: string

record import_structure =
  defaultImport :: "string option"
  namedImports :: "string list"
  moduleSpecifier :: string

datatype statement =
    ImportDeclaration import_structure
  | ExportAssignment bool expression
  | ClassDeclaration class_declaration
  | OtherStatement string

type_synonym source_text = "statement list"

section \<open>Errors, requests, the disk\<close>

text \<open>
  Every raise of the service and of the libraries under it is a value: \<open>Error\<close> with its
  message for \<^verbatim>\<open>throw new Error(...)\<close> of the existence guard, \<open>RenderError\<close> for whatever
  the template engine raises, \<open>InvalidOperationError\<close> for \<^verbatim>\<open>createSourceFile\<close> on a path that
  is taken and for \<^verbatim>\<open>getClassOrThrow\<close> and \<^verbatim>\<open>getDecoratorOrThrow\<close> finding nothing,
  \<open>FileNotFoundError\<close> for \<^verbatim>\<open>addSourceFileAtPath\<close> on a missing file, \<open>WrongKindError\<close> for
  \<^verbatim>\<open>asKindOrThrow\<close> on a node of another kind, \<open>TypeError\<close> for the method call on
  \<^verbatim>\<open>getArguments()[0]\<close> when the decorator has no argument, and \<open>NotImplementedError\<close> and
  \<open>ManipulationError\<close> for a mutation of the tree whose text the library cannot read back.
\<close>

datatype error =
    Error string
  | RenderError string
  | InvalidOperationError string
  | FileNotFoundError string
  | WrongKindError
  | TypeError
  | NotImplementedError
  | ManipulationError

text \<open>
  The input bag forwarded to the template. The generators read the symbol name from it
  (\<^verbatim>\<open>input.controllerName\<close>, \<^verbatim>\<open>input.className\<close>); the other placeholders are only
  passed on to the renderer. A request is taken to carry the fields its generator reads,
  each a string: the file path, the file name without extension, the bag with both symbol
  names, and the registration token.
\<close>

record input_bag =
  controllerName :: string
  className :: string
  placeholders :: "(string \<times> string) list"

record options =
  filePath :: string
  fileNameWithoutEx :: string
  input :: input_bag
  repoToken :: string

text \<open>
  What the service takes from outside: \<^verbatim>\<open>templateEngine.renderAsync\<close> (a template name and
  the input bag give a text, or the renderer raises), \<^verbatim>\<open>join(path, ...)\<close>, the absolute
  path of segments below the project root, and the parser of the syntax-tree library.
  The library carries out a mutation by writing text into the file and reading the file
  again, so what a mutation does depends on how the text it was given is read:
  \<open>parseDefaultImport d\<close> is whether \<^verbatim>\<open>import d from ...\<close> is read back as an import
  declaration (the library raises when it is not), and \<open>parseElements e\<close> is the list of
  array elements as which the text \<open>e\<close>, written after the last element of an array
  literal, is read back (none, one or several), or the error the library raises.
\<close>

record codegen_service =
  renderAsync :: "string \<Rightarrow> input_bag \<Rightarrow> error + source_text"
  joinPath :: "string list \<Rightarrow> string"
  parseDefaultImport :: "string \<Rightarrow> error + unit"
  parseElements :: "string \<Rightarrow> error + string list"

text \<open>
  The disk maps an absolute path to the text of the file there. Writing a file always
  succeeds; directories and permissions are not part of the model.
\<close>

type_synonym disk = "string \<rightharpoonup> source_text"

section \<open>The syntax-tree operations the generators call\<close>

text \<open>
  A node handle is the node together with the function that puts a changed node back into
  the file it was found in: the library mutates nodes in place, the model rebuilds the file.
\<close>

fun locate :: "('a \<Rightarrow> 'b option) \<Rightarrow> 'a list \<Rightarrow> ('a list \<times> 'b \<times> 'a list) option" where
  "locate f [] = None"
| "locate f (x # xs) =
     (case f x of
        Some y \<Rightarrow> Some ([], y, xs)
      | None \<Rightarrow> (case locate f xs of
                   None \<Rightarrow> None
                 | Some (pre, y, post) \<Rightarrow> Some (x # pre, y, post)))"

text \<open>
  Each generator works in a \<^verbatim>\<open>Project\<close> of its own that starts empty, so a source file of
  the project is a path with the text held for it. \<^verbatim>\<open>createSourceFile\<close> with
  \<^verbatim>\<open>overwrite: false\<close> refuses a path that is taken, \<^verbatim>\<open>save\<close> writes the text held, and
  \<^verbatim>\<open>addSourceFileAtPath\<close> reads the file from the disk.
\<close>

definition createSourceFile :: "disk \<Rightarrow> string \<Rightarrow> source_text \<Rightarrow> error + (string \<times> source_text)" where
  "createSourceFile fs p content =
     (if fs p \<noteq> None then Inl (InvalidOperationError p) else Inr (p, content))"

definition save :: "string \<times> source_text \<Rightarrow> disk \<Rightarrow> disk" where
  "save f fs = fs(fst f \<mapsto> snd f)"

definition addSourceFileAtPath :: "disk \<Rightarrow> string \<Rightarrow> error + (string \<times> source_text)" where
  "addSourceFileAtPath fs p =
     (case fs p of None \<Rightarrow> Inl (FileNotFoundError p) | Some t \<Rightarrow> Inr (p, t))"

text \<open>
  \<^verbatim>\<open>addImportDeclaration\<close> puts the new import after the last import declaration of the file,
  or first when the file has none. It raises when the structure has a default import that
  is not read back as one; a structure with named imports only is inserted as it is.
\<close>

fun isImport :: "statement \<Rightarrow> bool" where
  "isImport (ImportDeclaration _) = True"
| "isImport _ = False"

definition importInsertIndex :: "source_text \<Rightarrow> nat" where
  "importInsertIndex sf = length (dropWhile (\<lambda>st. \<not> isImport st) (rev sf))"

definition insertImportDeclaration :: "import_structure \<Rightarrow> source_text \<Rightarrow> source_text" where
  "insertImportDeclaration s sf =
     take (importInsertIndex sf) sf @ ImportDeclaration s # drop (importInsertIndex sf) sf"

definition addImportDeclaration ::
  "codegen_service \<Rightarrow> import_structure \<Rightarrow> source_text \<Rightarrow> error + source_text" where
  "addImportDeclaration svc s sf =
     (case defaultImport s of
        None \<Rightarrow> Inr (insertImportDeclaration s sf)
      | Some d \<Rightarrow>
          (case parseDefaultImport svc d of
             Inl e \<Rightarrow> Inl e
           | Inr _ \<Rightarrow> Inr (insertImportDeclaration s sf)))"

text \<open>
  The lookups return the first node that matches: the first export assignment that
  satisfies the condition, the first class and the first decorator of the given name, the
  first member of an object literal that carries the given name.
\<close>

fun exportAssignmentWhere :: "(bool \<Rightarrow> bool) \<Rightarrow> statement \<Rightarrow> (bool \<times> expression) option" where
  "exportAssignmentWhere cond (ExportAssignment isExportEquals e) =
     (if cond isExportEquals then Some (isExportEquals, e) else None)"
| "exportAssignmentWhere cond _ = None"

definition getExportAssignment ::
  "(bool \<Rightarrow> bool) \<Rightarrow> source_text \<Rightarrow> (expression \<times> (expression \<Rightarrow> source_text)) option" where
  "getExportAssignment cond sf =
     (case locate (exportAssignmentWhere cond) sf of
        None \<Rightarrow> None
      | Some (pre, (b, e), post) \<Rightarrow> Some (e, \<lambda>e'. pre @ ExportAssignment b e' # post))"

fun classNamed :: "string \<Rightarrow> statement \<Rightarrow> class_declaration option" where
  "classNamed n (ClassDeclaration c) = (if cname c = Some n then Some c else None)"
| "classNamed n _ = None"

definition getClassOrThrow ::
  "string \<Rightarrow> source_text \<Rightarrow> error + (class_declaration \<times> (class_declaration \<Rightarrow> source_text))" where
  "getClassOrThrow n sf =
     (case locate (classNamed n) sf of
        None \<Rightarrow> Inl (InvalidOperationError n)
      | Some (pre, c, post) \<Rightarrow> Inr (c, \<lambda>c'. pre @ ClassDeclaration c' # post))"

definition decoratorNamed :: "string \<Rightarrow> decorator \<Rightarrow> decorator option" where
  "decoratorNamed n d = (if decoratorName d = n then Some d else None)"

definition getDecoratorOrThrow ::
  "string \<Rightarrow> class_declaration \<times> (class_declaration \<Rightarrow> source_text)
     \<Rightarrow> error + (decorator \<times> (decorator \<Rightarrow> source_text))" where
  "getDecoratorOrThrow n h =
     (case locate (decoratorNamed n) (decorators (fst h)) of
        None \<Rightarrow> Inl (InvalidOperationError n)
      | Some (pre, d, post) \<Rightarrow>
          Inr (d, \<lambda>d'. snd h ((fst h)\<lparr>decorators := pre @ d' # post\<rparr>)))"

text \<open>
  \<^verbatim>\<open>getArguments()[0]\<close> is undefined for a decorator without arguments, and the
  \<^verbatim>\<open>asKindOrThrow\<close> called on it then raises.
\<close>

definition firstArgument ::
  "decorator \<times> (decorator \<Rightarrow> source_text) \<Rightarrow> (expression \<times> (expression \<Rightarrow> source_text)) option" where
  "firstArgument h =
     (case arguments (fst h) of
        [] \<Rightarrow> None
      | a # rest \<Rightarrow> Some (a, \<lambda>a'. snd h ((fst h)\<lparr>arguments := a' # rest\<rparr>)))"

definition asObjectLiteralOrThrow ::
  "(expression \<times> (expression \<Rightarrow> source_text)) option
     \<Rightarrow> error + (expression object_member list \<times> (expression object_member list \<Rightarrow> source_text))" where
  "asObjectLiteralOrThrow h =
     (case h of
        None \<Rightarrow> Inl TypeError
      | Some (ObjectLiteralExpression ms, put) \<Rightarrow> Inr (ms, \<lambda>ms'. put (ObjectLiteralExpression ms'))
      | Some (_, put) \<Rightarrow> Inl WrongKindError)"

definition asArrayLiteralOrThrow ::
  "expression \<times> (expression \<Rightarrow> source_text) \<Rightarrow> error + (string list \<times> (string list \<Rightarrow> source_text))" where
  "asArrayLiteralOrThrow h =
     (case fst h of
        ArrayLiteralExpression es \<Rightarrow> Inr (es, \<lambda>es'. snd h (ArrayLiteralExpression es'))
      | _ \<Rightarrow> Inl WrongKindError)"

fun memberName :: "'e object_member \<Rightarrow> string option" where
  "memberName (PropertyAssignment n _) = Some n"
| "memberName (ShorthandPropertyAssignment n) = Some n"
| "memberName (MethodDeclaration n) = Some n"
| "memberName (SpreadAssignment _) = None"

definition memberNamed :: "string \<Rightarrow> 'e object_member \<Rightarrow> 'e object_member option" where
  "memberNamed n m = (if memberName m = Some n then Some m else None)"

definition getProperty ::
  "string \<Rightarrow> expression object_member list \<times> (expression object_member list \<Rightarrow> source_text)
     \<Rightarrow> (expression object_member \<times> (expression object_member \<Rightarrow> source_text)) option" where
  "getProperty n h =
     (case locate (memberNamed n) (fst h) of
        None \<Rightarrow> None
      | Some (pre, m, post) \<Rightarrow> Some (m, \<lambda>m'. snd h (pre @ m' # post)))"

text \<open>
  \<^verbatim>\<open>addElement\<close> receives the new element as text and writes it after the last element; the
  array then has the elements as which that text is read back.
\<close>

definition addElement ::
  "codegen_service \<Rightarrow> string \<Rightarrow> string list \<times> (string list \<Rightarrow> source_text)
     \<Rightarrow> error + source_text" where
  "addElement svc e h =
     (case parseElements svc e of
        Inl err \<Rightarrow> Inl err
      | Inr new \<Rightarrow> Inr (snd h (fst h @ new)))"

section \<open>The generators\<close>

definition checkIfFileAlreadyExists :: "codegen_service \<Rightarrow> string \<Rightarrow> disk \<Rightarrow> error + unit" where
  "checkIfFileAlreadyExists svc fp fs =
     (if fs (joinPath svc [fp]) \<noteq> None then Inl (Error (fp @ '' already exists'')) else Inr ())"

text \<open>
  A generator returns its outcome together with the disk it leaves: a generator that raises
  after its first write leaves that write behind. In \<^verbatim>\<open>createConfigFile\<close> the import is added
  to the tree before the default export is looked up, and the closing
  \<^verbatim>\<open>console.timeEnd\<close> changes nothing that is modelled.
\<close>

definition createConfigFile :: "codegen_service \<Rightarrow> options \<Rightarrow> disk \<Rightarrow> (error + unit) \<times> disk" where
  "createConfigFile svc opts fs =
     (case checkIfFileAlreadyExists svc (filePath opts) fs of
        Inl e \<Rightarrow> (Inl e, fs)
      | Inr _ \<Rightarrow>
     (case renderAsync svc ''config'' (input opts) of
        Inl e \<Rightarrow> (Inl e, fs)
      | Inr content \<Rightarrow>
     (case createSourceFile fs (joinPath svc [filePath opts]) content of
        Inl e \<Rightarrow> (Inl e, fs)
      | Inr newFile \<Rightarrow>
     (let fs1 = save newFile fs in
     (case addSourceFileAtPath fs1 (joinPath svc [''config/index.ts'']) of
        Inl e \<Rightarrow> (Inl e, fs1)
      | Inr indexFile \<Rightarrow>
     (case addImportDeclaration svc
             \<lparr>defaultImport = Some (fileNameWithoutEx opts), namedImports = [],
              moduleSpecifier = ''./'' @ fileNameWithoutEx opts\<rparr>
             (snd indexFile) of
        Inl e \<Rightarrow> (Inl e, fs1)
      | Inr indexText \<Rightarrow>
     (case getExportAssignment (\<lambda>isExportEquals. isExportEquals = False) indexText of
        None \<Rightarrow> (Inr (), fs1)
      | Some defaultExport \<Rightarrow>
     (case asArrayLiteralOrThrow defaultExport of
        Inl e \<Rightarrow> (Inl e, fs1)
      | Inr arrayLiteral \<Rightarrow>
     (case addElement svc (fileNameWithoutEx opts) arrayLiteral of
        Inl e \<Rightarrow> (Inl e, fs1)
      | Inr indexText' \<Rightarrow> (Inr (), save (fst indexFile, indexText') fs1))))))))))"

text \<open>
  Lines 79 to 85, 121 to 127 and 183 to 189 of the service are the same text: from the
  module file to the object literal that is the first argument of the \<^verbatim>\<open>Module\<close> decorator
  of the class \<^verbatim>\<open>AppModule\<close>.
\<close>

definition moduleObjectLiteral ::
  "source_text \<Rightarrow> error + (expression object_member list \<times> (expression object_member list \<Rightarrow> source_text))" where
  "moduleObjectLiteral moduleText =
     (case getClassOrThrow ''AppModule'' moduleText of
        Inl e \<Rightarrow> Inl e
      | Inr classDeclaration \<Rightarrow>
     (case getDecoratorOrThrow ''Module'' classDeclaration of
        Inl e \<Rightarrow> Inl e
      | Inr moduleDecorator \<Rightarrow> asObjectLiteralOrThrow (firstArgument moduleDecorator)))"

text \<open>
  The guarded append of lines 89 to 94 (and 131 to 136, 193 to 200): only a property
  assignment is touched, and its initializer must be an array literal.
\<close>

definition appendIfPropertyAssignment ::
  "codegen_service
     \<Rightarrow> (expression object_member \<times> (expression object_member \<Rightarrow> source_text)) option
     \<Rightarrow> string \<Rightarrow> source_text \<Rightarrow> error + source_text" where
  "appendIfPropertyAssignment svc property e moduleText =
     (case property of
        Some (PropertyAssignment n initializer, put) \<Rightarrow>
          (case asArrayLiteralOrThrow (initializer, \<lambda>i'. put (PropertyAssignment n i')) of
             Inl err \<Rightarrow> Inl err
           | Inr controllersArray \<Rightarrow> addElement svc e controllersArray)
      | _ \<Rightarrow> Inr moduleText)"

definition createController :: "codegen_service \<Rightarrow> options \<Rightarrow> disk \<Rightarrow> (error + unit) \<times> disk" where
  "createController svc opts fs =
     (case checkIfFileAlreadyExists svc (filePath opts) fs of
        Inl e \<Rightarrow> (Inl e, fs)
      | Inr _ \<Rightarrow>
     (case renderAsync svc ''controller'' (input opts) of
        Inl e \<Rightarrow> (Inl e, fs)
      | Inr content \<Rightarrow>
     (case createSourceFile fs (joinPath svc [filePath opts]) content of
        Inl e \<Rightarrow> (Inl e, fs)
      | Inr newController \<Rightarrow>
     (let fs1 = save newController fs in
     (case addSourceFileAtPath fs1 (joinPath svc [''app'', ''module.ts'']) of
        Inl e \<Rightarrow> (Inl e, fs1)
      | Inr moduleFile \<Rightarrow>
     (case moduleObjectLiteral (snd moduleFile) of
        Inl e \<Rightarrow> (Inl e, fs1)
      | Inr moduleObject \<Rightarrow>
     (case appendIfPropertyAssignment svc (getProperty ''controllers'' moduleObject)
             (controllerName (input opts)) (snd moduleFile) of
        Inl e \<Rightarrow> (Inl e, fs1)
      | Inr moduleText \<Rightarrow>
     (case addImportDeclaration svc
             \<lparr>defaultImport = None, namedImports = [controllerName (input opts)],
              moduleSpecifier = ''./controllers/'' @ fileNameWithoutEx opts\<rparr>
             moduleText of
        Inl e \<Rightarrow> (Inl e, fs1)
      | Inr moduleText' \<Rightarrow> (Inr (), save (fst moduleFile, moduleText') fs1)))))))))"

definition createService :: "codegen_service \<Rightarrow> options \<Rightarrow> disk \<Rightarrow> (error + unit) \<times> disk" where
  "createService svc opts fs =
     (case checkIfFileAlreadyExists svc (filePath opts) fs of
        Inl e \<Rightarrow> (Inl e, fs)
      | Inr _ \<Rightarrow>
     (case renderAsync svc ''service'' (input opts) of
        Inl e \<Rightarrow> (Inl e, fs)
      | Inr content \<Rightarrow>
     (case createSourceFile fs (joinPath svc [filePath opts]) content of
        Inl e \<Rightarrow> (Inl e, fs)
      | Inr newController \<Rightarrow>
     (let fs1 = save newController fs in
     (case addSourceFileAtPath fs1 (joinPath svc [''app'', ''module.ts'']) of
        Inl e \<Rightarrow> (Inl e, fs1)
      | Inr moduleFile \<Rightarrow>
     (case moduleObjectLiteral (snd moduleFile) of
        Inl e \<Rightarrow> (Inl e, fs1)
      | Inr moduleObject \<Rightarrow>
     (case appendIfPropertyAssignment svc (getProperty ''providers'' moduleObject)
             (className (input opts)) (snd moduleFile) of
        Inl e \<Rightarrow> (Inl e, fs1)
      | Inr moduleText \<Rightarrow>
     (case addImportDeclaration svc
             \<lparr>defaultImport = None, namedImports = [className (input opts)],
              moduleSpecifier = ''./services/'' @ fileNameWithoutEx opts\<rparr>
             moduleText of
        Inl e \<Rightarrow> (Inl e, fs1)
      | Inr moduleText' \<Rightarrow> (Inr (), save (fst moduleFile, moduleText') fs1)))))))))"

definition createException :: "codegen_service \<Rightarrow> options \<Rightarrow> disk \<Rightarrow> (error + unit) \<times> disk" where
  "createException svc opts fs =
     (case checkIfFileAlreadyExists svc (filePath opts) fs of
        Inl e \<Rightarrow> (Inl e, fs)
      | Inr _ \<Rightarrow>
     (case renderAsync svc ''exception'' (input opts) of
        Inl e \<Rightarrow> (Inl e, fs)
      | Inr content \<Rightarrow>
     (case createSourceFile fs (joinPath svc [filePath opts]) content of
        Inl e \<Rightarrow> (Inl e, fs)
      | Inr newException \<Rightarrow> (Inr (), save newException fs))))"

definition providerBinding :: "string \<Rightarrow> string \<Rightarrow> string" where
  "providerBinding token cls =
     ''{ provide: '' @ [CHR 0x27] @ token @ [CHR 0x27] @ '', useClass: '' @ cls @ '', }''"

definition createRepo :: "codegen_service \<Rightarrow> options \<Rightarrow> disk \<Rightarrow> (error + unit) \<times> disk" where
  "createRepo svc opts fs =
     (case checkIfFileAlreadyExists svc (filePath opts) fs of
        Inl e \<Rightarrow> (Inl e, fs)
      | Inr _ \<Rightarrow>
     (case renderAsync svc ''repositoryDB'' (input opts) of
        Inl e \<Rightarrow> (Inl e, fs)
      | Inr content \<Rightarrow>
     (case createSourceFile fs (joinPath svc [filePath opts]) content of
        Inl e \<Rightarrow> (Inl e, fs)
      | Inr newSourceFile \<Rightarrow>
     (let fs1 = save newSourceFile fs in
     (case addSourceFileAtPath fs1 (joinPath svc [''app'', ''module.ts'']) of
        Inl e \<Rightarrow> (Inl e, fs1)
      | Inr moduleFile \<Rightarrow>
     (case moduleObjectLiteral (snd moduleFile) of
        Inl e \<Rightarrow> (Inl e, fs1)
      | Inr moduleObject \<Rightarrow>
     (case appendIfPropertyAssignment svc (getProperty ''providers'' moduleObject)
             (providerBinding (repoToken opts) (className (input opts))) (snd moduleFile) of
        Inl e \<Rightarrow> (Inl e, fs1)
      | Inr moduleText \<Rightarrow>
     (case addImportDeclaration svc
             \<lparr>defaultImport = None, namedImports = [className (input opts)],
              moduleSpecifier = ''./repositories/'' @ fileNameWithoutEx opts\<rparr>
             moduleText of
        Inl e \<Rightarrow> (Inl e, fs1)
      | Inr moduleText' \<Rightarrow> (Inr (), save (fst moduleFile, moduleText') fs1)))))))))"

definition createModel :: "codegen_service \<Rightarrow> options \<Rightarrow> disk \<Rightarrow> (error + unit) \<times> disk" where
  "createModel svc opts fs =
     (case checkIfFileAlreadyExists svc (filePath opts) fs of
        Inl e \<Rightarrow> (Inl e, fs)
      | Inr _ \<Rightarrow>
     (case renderAsync svc ''model'' (input opts) of
        Inl e \<Rightarrow> (Inl e, fs)
      | Inr content \<Rightarrow>
     (case createSourceFile fs (joinPath svc [filePath opts]) content of
        Inl e \<Rightarrow> (Inl e, fs)
      | Inr newController \<Rightarrow> (Inr (), save newController fs))))"

section \<open>The Dto parameter decorator\<close>

text \<open>
  The factory passed to \<^verbatim>\<open>createParamDecorator\<close> reads the context type, and then either the
  \<^verbatim>\<open>_dto\<close> field of the WebSocket client or the result of \<^verbatim>\<open>dto()\<close> on the HTTP request.
\<close>

record 'v ws_client =
  dto_field :: 'v

record 'v request =
  dto :: "unit \<Rightarrow> 'v"

record 'v execution_context =
  contextType :: string
  switchToWs_getClient :: "'v ws_client"
  switchToHttp_getRequest :: "'v request"

definition Dto :: "string \<Rightarrow> 'v execution_context \<Rightarrow> 'v" where
  "Dto data ctx =
     (if contextType ctx = ''ws'' then dto_field (switchToWs_getClient ctx)
      else dto (switchToHttp_getRequest ctx) ())"

section \<open>What a registration changes\<close>

text \<open>
  The import structures the four registering generators pass to \<^verbatim>\<open>addImportDeclaration\<close>.
\<close>

definition configImport :: "options \<Rightarrow> import_structure" where
  "configImport opts =
     \<lparr>defaultImport = Some (fileNameWithoutEx opts), namedImports = [],
      moduleSpecifier = ''./'' @ fileNameWithoutEx opts\<rparr>"

definition controllerImport :: "options \<Rightarrow> import_structure" where
  "controllerImport opts =
     \<lparr>defaultImport = None, namedImports = [controllerName (input opts)],
      moduleSpecifier = ''./controllers/'' @ fileNameWithoutEx opts\<rparr>"

definition serviceImport :: "options \<Rightarrow> import_structure" where
  "serviceImport opts =
     \<lparr>defaultImport = None, namedImports = [className (input opts)],
      moduleSpecifier = ''./services/'' @ fileNameWithoutEx opts\<rparr>"

definition repoImport :: "options \<Rightarrow> import_structure" where
  "repoImport opts =
     \<lparr>defaultImport = None, namedImports = [className (input opts)],
      moduleSpecifier = ''./repositories/'' @ fileNameWithoutEx opts\<rparr>"

text \<open>
  The specification's reading of a registration, stated on the texts and not through the
  operations above. \<open>importInserted s old new\<close>: the new text is the old one with the import
  \<open>s\<close> put in after every import the old text has. \<open>moduleElementAppended prop e old new\<close>:
  the new text is the old one with \<open>e\<close> as a further last element of the array that the
  property \<open>prop\<close> holds in the object given to the \<^verbatim>\<open>Module\<close> decorator of \<^verbatim>\<open>AppModule\<close>.
  \<open>exportElementAppended e old new\<close>: the same for the array of the default export.
  In each case everything around the insertion is the same in both texts.
\<close>

definition importInserted :: "import_structure \<Rightarrow> source_text \<Rightarrow> source_text \<Rightarrow> bool" where
  "importInserted s old new \<longleftrightarrow>
     (\<exists>pre post. old = pre @ post \<and> new = pre @ ImportDeclaration s # post
        \<and> (\<forall>st\<in>set post. \<not> isImport st))"

definition moduleElementAppended :: "string \<Rightarrow> string \<Rightarrow> source_text \<Rightarrow> source_text \<Rightarrow> bool" where
  "moduleElementAppended prop e old new \<longleftrightarrow>
     (\<exists>pre c post dpre d dpost rest mpre es mpost.
        old = pre @ ClassDeclaration c # post \<and> cname c = Some ''AppModule''
        \<and> decorators c = dpre @ d # dpost \<and> decoratorName d = ''Module''
        \<and> arguments d =
            ObjectLiteralExpression (mpre @ PropertyAssignment prop (ArrayLiteralExpression es) # mpost) # rest
        \<and> new = pre @ ClassDeclaration
              (c\<lparr>decorators := dpre @
                   d\<lparr>arguments :=
                       ObjectLiteralExpression
                         (mpre @ PropertyAssignment prop (ArrayLiteralExpression (es @ [e])) # mpost)
                       # rest\<rparr> # dpost\<rparr>) # post)"

definition exportElementAppended :: "string \<Rightarrow> source_text \<Rightarrow> source_text \<Rightarrow> bool" where
  "exportElementAppended e old new \<longleftrightarrow>
     (\<exists>pre es post.
        old = pre @ ExportAssignment False (ArrayLiteralExpression es) # post
        \<and> new = pre @ ExportAssignment False (ArrayLiteralExpression (es @ [e])) # post)"

text \<open>
  What the generators find in a registry text: the member of the module object under a
  name (or the error of the lookup before it), the elements of the array that member
  holds, and the elements of the default export's array.
\<close>

definition moduleProperty :: "string \<Rightarrow> source_text \<Rightarrow> error + expression object_member option" where
  "moduleProperty prop sf =
     (case moduleObjectLiteral sf of
        Inl e \<Rightarrow> Inl e
      | Inr moduleObject \<Rightarrow> Inr (map_option fst (getProperty prop moduleObject)))"

definition moduleArray :: "string \<Rightarrow> source_text \<Rightarrow> string list option" where
  "moduleArray prop sf =
     (case moduleProperty prop sf of
        Inr (Some (PropertyAssignment n (ArrayLiteralExpression es))) \<Rightarrow> Some es
      | _ \<Rightarrow> None)"

definition exportArray :: "source_text \<Rightarrow> string list option" where
  "exportArray sf =
     (case getExportAssignment (\<lambda>isExportEquals. isExportEquals = False) sf of
        Some (ArrayLiteralExpression es, put) \<Rightarrow> Some es
      | _ \<Rightarrow> None)"

text \<open>
  A sequence of generator calls, each on the disk the call before it left; it ends at the
  first call that raises. \<open>handed\<close> and \<open>handedToIndex\<close> give the text a call passes to
  \<^verbatim>\<open>addElement\<close> for a module array and for the configuration index, \<open>registered\<close> and
  \<open>exported\<close> the elements as which that text is read.
\<close>

definition elementsRead :: "codegen_service \<Rightarrow> string \<Rightarrow> string list" where
  "elementsRead svc e = (case parseElements svc e of Inl _ \<Rightarrow> [] | Inr new \<Rightarrow> new)"

datatype kind = Configuration | Controller | Service | Exception | Repository | Model

fun generate :: "codegen_service \<Rightarrow> kind \<times> options \<Rightarrow> disk \<Rightarrow> (error + unit) \<times> disk" where
  "generate svc (Configuration, opts) fs = createConfigFile svc opts fs"
| "generate svc (Controller, opts) fs = createController svc opts fs"
| "generate svc (Service, opts) fs = createService svc opts fs"
| "generate svc (Exception, opts) fs = createException svc opts fs"
| "generate svc (Repository, opts) fs = createRepo svc opts fs"
| "generate svc (Model, opts) fs = createModel svc opts fs"

fun generateAll :: "codegen_service \<Rightarrow> (kind \<times> options) list \<Rightarrow> disk \<Rightarrow> (error + unit) \<times> disk" where
  "generateAll svc [] fs = (Inr (), fs)"
| "generateAll svc (r # rs) fs =
     (case generate svc r fs of
        (Inl e, fs') \<Rightarrow> (Inl e, fs')
      | (Inr _, fs') \<Rightarrow> generateAll svc rs fs')"

fun handed :: "string \<Rightarrow> kind \<times> options \<Rightarrow> string list" where
  "handed prop (Controller, opts) =
     (if prop = ''controllers'' then [controllerName (input opts)] else [])"
| "handed prop (Service, opts) =
     (if prop = ''providers'' then [className (input opts)] else [])"
| "handed prop (Repository, opts) =
     (if prop = ''providers'' then [providerBinding (repoToken opts) (className (input opts))] else [])"
| "handed prop _ = []"

fun handedToIndex :: "kind \<times> options \<Rightarrow> string list" where
  "handedToIndex (Configuration, opts) = [fileNameWithoutEx opts]"
| "handedToIndex _ = []"

fun registered :: "codegen_service \<Rightarrow> string \<Rightarrow> kind \<times> options \<Rightarrow> string list" where
  "registered svc prop (Controller, opts) =
     (if prop = ''controllers'' then elementsRead svc (controllerName (input opts)) else [])"
| "registered svc prop (Service, opts) =
     (if prop = ''providers'' then elementsRead svc (className (input opts)) else [])"
| "registered svc prop (Repository, opts) =
     (if prop = ''providers''
      then elementsRead svc (providerBinding (repoToken opts) (className (input opts))) else [])"
| "registered svc prop _ = []"

fun exported :: "codegen_service \<Rightarrow> kind \<times> options \<Rightarrow> string list" where
  "exported svc (Configuration, opts) = elementsRead svc (fileNameWithoutEx opts)"
| "exported svc _ = []"

section \<open>Auxiliary definitions for the proofs\<close>

text \<open>
  The three generators that register in the module file are one text with four holes: the
  template name, the property name, the element, and the import structure.
\<close>

definition moduleGenerator ::
  "string \<Rightarrow> string \<Rightarrow> string \<Rightarrow> import_structure
     \<Rightarrow> codegen_service \<Rightarrow> options \<Rightarrow> disk \<Rightarrow> (error + unit) \<times> disk" where
  "moduleGenerator template prop e imp svc opts fs =
     (case checkIfFileAlreadyExists svc (filePath opts) fs of
        Inl err \<Rightarrow> (Inl err, fs)
      | Inr _ \<Rightarrow>
     (case renderAsync svc template (input opts) of
        Inl err \<Rightarrow> (Inl err, fs)
      | Inr content \<Rightarrow>
     (case createSourceFile fs (joinPath svc [filePath opts]) content of
        Inl err \<Rightarrow> (Inl err, fs)
      | Inr newFile \<Rightarrow>
     (let fs1 = save newFile fs in
     (case addSourceFileAtPath fs1 (joinPath svc [''app'', ''module.ts'']) of
        Inl err \<Rightarrow> (Inl err, fs1)
      | Inr moduleFile \<Rightarrow>
     (case moduleObjectLiteral (snd moduleFile) of
        Inl err \<Rightarrow> (Inl err, fs1)
      | Inr moduleObject \<Rightarrow>
     (case appendIfPropertyAssignment svc (getProperty prop moduleObject) e (snd moduleFile) of
        Inl err \<Rightarrow> (Inl err, fs1)
      | Inr moduleText \<Rightarrow>
     (case addImportDeclaration svc imp moduleText of
        Inl err \<Rightarrow> (Inl err, fs1)
      | Inr moduleText' \<Rightarrow> (Inr (), save (fst moduleFile, moduleText') fs1)))))))))"

definition located :: "('a \<Rightarrow> 'b option) \<Rightarrow> 'a list \<Rightarrow> 'b option" where
  "located f xs = map_option (\<lambda>r. fst (snd r)) (locate f xs)"

section \<open>A sample project\<close>

text \<open>
  A small project on which the statements below are evaluated: a renderer that returns one
  statement naming the template and the symbols, paths joined with slashes, a module file
  with a \<^verbatim>\<open>controllers\<close> and a \<^verbatim>\<open>providers\<close> array, and a configuration index with a default
  export. Its parser accepts as a default import a name made of letters, digits,
  \<^verbatim>\<open>_\<close> and \<^verbatim>\<open>$\<close> that does not start with a digit. It reads an element text by cutting
  it at the commas that are outside quotes and brackets, blanks around a piece dropped and
  an empty text giving no element, and it refuses a text whose quotes or brackets are not
  closed.
\<close>

definition identifierChar :: "char \<Rightarrow> bool" where
  "identifierChar c \<longleftrightarrow>
     c \<in> set ''abcdefghijklmnopqrstuvwxyzABCDEFGHIJKLMNOPQRSTUVWXYZ0123456789_$''"

definition sampleDefaultImport :: "string \<Rightarrow> error + unit" where
  "sampleDefaultImport d =
     (case d of
        [] \<Rightarrow> Inl NotImplementedError
      | c # cs \<Rightarrow>
          (if list_all identifierChar d \<and> c \<notin> set ''0123456789'' then Inr ()
           else Inl NotImplementedError))"

definition trimBlanks :: "string \<Rightarrow> string" where
  "trimBlanks t = rev (dropWhile (\<lambda>c. c = CHR '' '') (rev (dropWhile (\<lambda>c. c = CHR '' '') t)))"

definition pushPiece :: "string \<Rightarrow> string list \<Rightarrow> string list" where
  "pushPiece piece pieces = (if trimBlanks piece = [] then pieces else pieces @ [trimBlanks piece])"

fun scanElements :: "nat \<Rightarrow> bool \<Rightarrow> string \<Rightarrow> string list \<Rightarrow> string \<Rightarrow> error + string list" where
  "scanElements depth quoted piece pieces [] =
     (if quoted \<or> depth \<noteq> 0 then Inl ManipulationError else Inr (pushPiece piece pieces))"
| "scanElements depth quoted piece pieces (c # cs) =
     (if quoted then scanElements depth (c \<noteq> CHR 0x27) (piece @ [c]) pieces cs
      else if c = CHR 0x27 then scanElements depth True (piece @ [c]) pieces cs
      else if c \<in> set ''([{'' then scanElements (Suc depth) False (piece @ [c]) pieces cs
      else if c \<in> set '')]}'' then
        (if depth = 0 then Inl ManipulationError
         else scanElements (depth - 1) False (piece @ [c]) pieces cs)
      else if c = CHR '','' \<and> depth = 0 then scanElements 0 False [] (pushPiece piece pieces) cs
      else scanElements depth False (piece @ [c]) pieces cs)"

definition sampleElements :: "string \<Rightarrow> error + string list" where
  "sampleElements e = scanElements 0 False [] [] e"

definition sampleService :: codegen_service where
  "sampleService =
     \<lparr>renderAsync =
        (\<lambda>name bag. Inr [OtherStatement (name @ '' '' @ className bag @ controllerName bag)]),
      joinPath = (\<lambda>segs. concat (map (\<lambda>s. ''/'' @ s) segs)),
      parseDefaultImport = sampleDefaultImport,
      parseElements = sampleElements\<rparr>"

definition sampleOptions :: options where
  "sampleOptions =
     \<lparr>filePath = ''app/controllers/widget.ts'', fileNameWithoutEx = ''widget'',
      input = \<lparr>controllerName = ''WidgetController'', className = ''WidgetRepository'',
               placeholders = []\<rparr>,
      repoToken = ''WIDGET_REPO''\<rparr>"

definition sampleContent :: "string \<Rightarrow> source_text" where
  "sampleContent name = [OtherStatement (name @ '' WidgetRepositoryWidgetController'')]"

definition sampleObject :: "expression object_member list" where
  "sampleObject =
     [PropertyAssignment ''imports'' (ArrayLiteralExpression []),
      PropertyAssignment ''controllers'' (ArrayLiteralExpression [''AppController'']),
      PropertyAssignment ''providers'' (ArrayLiteralExpression [''AppService''])]"

definition moduleWith :: "expression object_member list \<Rightarrow> source_text" where
  "moduleWith ms =
     [ImportDeclaration
        \<lparr>defaultImport = None, namedImports = [''Module''], moduleSpecifier = ''@nestjs/common''\<rparr>,
      OtherStatement ''const x = 1;'',
      ClassDeclaration
        \<lparr>cname = Some ''AppModule'',
         decorators = [\<lparr>decoratorName = ''Module'', arguments = [ObjectLiteralExpression ms]\<rparr>],
         cbody = ''{}''\<rparr>]"

definition sampleIndex :: source_text where
  "sampleIndex =
     [ImportDeclaration
        \<lparr>defaultImport = Some ''app'', namedImports = [], moduleSpecifier = ''./app''\<rparr>,
      ExportAssignment False (ArrayLiteralExpression [''app''])]"

definition sampleDisk :: disk where
  "sampleDisk = [''/app/module.ts'' \<mapsto> moduleWith sampleObject, ''/config/index.ts'' \<mapsto> sampleIndex]"

text \<open>
  Five calls in a row, to distinct target paths.
\<close>

definition requestFor :: "string \<Rightarrow> options" where
  "requestFor n =
     \<lparr>filePath = ''app/'' @ n @ ''.ts'', fileNameWithoutEx = n,
      input = \<lparr>controllerName = n @ ''Controller'', className = n @ ''Class'', placeholders = []\<rparr>,
      repoToken = ''TOKEN''\<rparr>"

definition sampleRequests :: "(kind \<times> options) list" where
  "sampleRequests =
     [(Controller, requestFor ''a''), (Service, requestFor ''b''), (Configuration, requestFor ''c''),
      (Repository, requestFor ''d''), (Controller, requestFor ''e'')]"

section \<open>Basic facts\<close>

lemmas io_defs = checkIfFileAlreadyExists_def createSourceFile_def save_def addSourceFileAtPath_def

lemmas sample_defs = sampleService_def sampleOptions_def sampleContent_def sampleObject_def
  moduleWith_def sampleIndex_def sampleDisk_def sampleDefaultImport_def sampleElements_def
  identifierChar_def trimBlanks_def pushPiece_def

lemma sampleElements_examples:
  "sampleElements ''WidgetController'' = Inr [''WidgetController'']"
  "sampleElements ''A, B'' = Inr [''A'', ''B'']"
  "sampleElements [] = Inr []"
  "sampleElements (''{ provide: '' @ [CHR 0x27] @ ''IT'' @ [CHR 0x27] @ ''S'' @ [CHR 0x27]
                    @ '', useClass: WidgetRepository, }'') = Inl ManipulationError"
  by (simp_all add: sampleElements_def trimBlanks_def pushPiece_def)

lemma sampleDefaultImport_examples:
  "sampleDefaultImport ''widget'' = Inr ()"
  "sampleDefaultImport ''rate-limit'' = Inl NotImplementedError"
  by (simp_all add: sampleDefaultImport_def identifierChar_def)

lemma addImportDeclaration_named:
  "defaultImport s = None \<Longrightarrow> addImportDeclaration svc s sf = Inr (insertImportDeclaration s sf)"
  by (simp add: addImportDeclaration_def)

lemma addImportDeclaration_default:
  "defaultImport s = Some d \<Longrightarrow>
     addImportDeclaration svc s sf =
       (case parseDefaultImport svc d of
          Inl e \<Rightarrow> Inl e
        | Inr _ \<Rightarrow> Inr (insertImportDeclaration s sf))"
  by (simp add: addImportDeclaration_def)

lemma addImportDeclaration_InrD:
  "addImportDeclaration svc s sf = Inr sf' \<Longrightarrow> sf' = insertImportDeclaration s sf"
  by (auto simp: addImportDeclaration_def split: option.splits sum.splits)

lemma import_defaults [simp]:
  "defaultImport (controllerImport opts) = None"
  "defaultImport (serviceImport opts) = None"
  "defaultImport (repoImport opts) = None"
  "defaultImport (configImport opts) = Some (fileNameWithoutEx opts)"
  by (simp_all add: controllerImport_def serviceImport_def repoImport_def configImport_def)

lemma locate_SomeD:
  "locate f xs = Some (pre, y, post) \<Longrightarrow>
     \<exists>x. xs = pre @ x # post \<and> f x = Some y \<and> (\<forall>z\<in>set pre. f z = None)"
proof (induction xs arbitrary: pre)
  case Nil
  then show ?case by simp
next
  case (Cons a xs)
  show ?case
  proof (cases "f a")
    case None
    with Cons.prems obtain pre' where l: "locate f xs = Some (pre', y, post)" and p: "pre = a # pre'"
      by (auto split: option.splits)
    from Cons.IH[OF l] None p show ?thesis by auto
  next
    case (Some b)
    with Cons.prems show ?thesis by auto
  qed
qed

lemma locate_None_iff: "locate f xs = None \<longleftrightarrow> (\<forall>x\<in>set xs. f x = None)"
  by (induction xs) (auto split: option.splits)

lemma locate_first:
  "(\<forall>z\<in>set pre. f z = None) \<Longrightarrow> f x = Some y \<Longrightarrow> locate f (pre @ x # post) = Some (pre, y, post)"
  by (induction pre) auto

lemma getExportAssignment_None_iff:
  "getExportAssignment cond sf = None \<longleftrightarrow> (\<forall>st\<in>set sf. exportAssignmentWhere cond st = None)"
  by (simp add: getExportAssignment_def locate_None_iff[symmetric] split: option.splits prod.splits)

lemma set_insertImportDeclaration:
  "set (insertImportDeclaration s sf) = insert (ImportDeclaration s) (set sf)"
proof -
  have "set (take (importInsertIndex sf) sf) \<union> set (drop (importInsertIndex sf) sf) = set sf"
    by (metis append_take_drop_id set_append)
  then show ?thesis by (auto simp: insertImportDeclaration_def)
qed

lemma no_default_export_after_import:
  assumes "\<forall>e. ExportAssignment False e \<notin> set sf"
  shows "getExportAssignment (\<lambda>b. b = False) (insertImportDeclaration s sf) = None"
proof -
  have "exportAssignmentWhere (\<lambda>b. b = False) st = None" if "st \<in> set sf" for st
  proof (cases st)
    case (ExportAssignment b e)
    with that assms have "b" by (cases b) auto
    with ExportAssignment show ?thesis by simp
  qed simp_all
  then show ?thesis
    by (simp add: getExportAssignment_None_iff set_insertImportDeclaration)
qed

lemma importInserted_add: "importInserted s sf (insertImportDeclaration s sf)"
proof -
  let ?P = "\<lambda>st. \<not> isImport st"
  let ?k = "importInsertIndex sf"
  have len: "?k = length sf - length (takeWhile ?P (rev sf))"
    unfolding importInsertIndex_def
    by (metis add_diff_cancel_left' length_append length_rev takeWhile_dropWhile_id)
  have "rev (drop ?k sf) = take (length (takeWhile ?P (rev sf))) (rev sf)"
    unfolding len by (simp add: take_rev length_takeWhile_le)
  also have "\<dots> = takeWhile ?P (rev sf)"
    by (rule takeWhile_eq_take[symmetric])
  finally have "set (drop ?k sf) = set (takeWhile ?P (rev sf))"
    by (metis set_rev)
  then have "\<forall>st\<in>set (drop ?k sf). \<not> isImport st"
    by (auto dest: set_takeWhileD)
  moreover have "sf = take ?k sf @ drop ?k sf" by simp
  ultimately show ?thesis
    unfolding importInserted_def insertImportDeclaration_def by blast
qed

lemma moduleObjectLiteral_shape:
  assumes "moduleObjectLiteral sf = Inr (ms, put)"
  shows "\<exists>pre c post dpre d dpost rest.
           sf = pre @ ClassDeclaration c # post \<and> cname c = Some ''AppModule''
           \<and> (\<forall>z\<in>set pre. classNamed ''AppModule'' z = None)
           \<and> decorators c = dpre @ d # dpost \<and> decoratorName d = ''Module''
           \<and> (\<forall>z\<in>set dpre. decoratorNamed ''Module'' z = None)
           \<and> arguments d = ObjectLiteralExpression ms # rest
           \<and> put = (\<lambda>ms'. pre @ ClassDeclaration
                        (c\<lparr>decorators := dpre @ d\<lparr>arguments := ObjectLiteralExpression ms' # rest\<rparr> # dpost\<rparr>)
                        # post)"
proof -
  from assms obtain pre c post where
    lc: "locate (classNamed ''AppModule'') sf = Some (pre, c, post)"
    by (auto simp: moduleObjectLiteral_def getClassOrThrow_def split: option.splits sum.splits)
  from locate_SomeD[OF lc] obtain x where
    x: "sf = pre @ x # post" "classNamed ''AppModule'' x = Some c"
       "\<forall>z\<in>set pre. classNamed ''AppModule'' z = None"
    by blast
  from x(2) have xc: "x = ClassDeclaration c" "cname c = Some ''AppModule''"
    by (cases x; auto split: if_splits)+
  from assms lc obtain dpre d dpost where
    ld: "locate (decoratorNamed ''Module'') (decorators c) = Some (dpre, d, dpost)"
    by (auto simp: moduleObjectLiteral_def getClassOrThrow_def getDecoratorOrThrow_def
             split: option.splits sum.splits)
  from locate_SomeD[OF ld] obtain y where
    y: "decorators c = dpre @ y # dpost" "decoratorNamed ''Module'' y = Some d"
       "\<forall>z\<in>set dpre. decoratorNamed ''Module'' z = None"
    by blast
  from y(2) have yd: "y = d" "decoratorName d = ''Module''"
    by (auto simp: decoratorNamed_def split: if_splits)
  from assms lc ld obtain rest where
    a: "arguments d = ObjectLiteralExpression ms # rest"
    and p: "put = (\<lambda>ms'. pre @ ClassDeclaration
                        (c\<lparr>decorators := dpre @ d\<lparr>arguments := ObjectLiteralExpression ms' # rest\<rparr> # dpost\<rparr>)
                        # post)"
    by (auto simp: moduleObjectLiteral_def getClassOrThrow_def getDecoratorOrThrow_def
                   firstArgument_def asObjectLiteralOrThrow_def
             split: option.splits sum.splits list.splits expression.splits)
  from x xc y yd a p show ?thesis by blast
qed


lemma createController_generic:
  "createController svc opts fs =
     moduleGenerator ''controller'' ''controllers'' (controllerName (input opts))
        (controllerImport opts) svc opts fs"
  unfolding createController_def moduleGenerator_def controllerImport_def by (rule refl)

lemma createService_generic:
  "createService svc opts fs =
     moduleGenerator ''service'' ''providers'' (className (input opts))
        (serviceImport opts) svc opts fs"
  unfolding createService_def moduleGenerator_def serviceImport_def by (rule refl)

lemma createRepo_generic:
  "createRepo svc opts fs =
     moduleGenerator ''repositoryDB'' ''providers''
        (providerBinding (repoToken opts) (className (input opts))) (repoImport opts) svc opts fs"
  unfolding createRepo_def moduleGenerator_def repoImport_def by (rule refl)

lemma getProperty_shape:
  assumes "getProperty n (ms, put) = Some (m, putp)"
  shows "\<exists>mpre mpost. ms = mpre @ m # mpost \<and> memberName m = Some n
           \<and> (\<forall>z\<in>set mpre. memberNamed n z = None)
           \<and> putp = (\<lambda>m'. put (mpre @ m' # mpost))"
proof -
  from assms obtain mpre mpost where
    l: "locate (memberNamed n) ms = Some (mpre, m, mpost)" and p: "putp = (\<lambda>m'. put (mpre @ m' # mpost))"
    by (auto simp: getProperty_def split: option.splits)
  from locate_SomeD[OF l] obtain x where
    x: "ms = mpre @ x # mpost" "memberNamed n x = Some m" "\<forall>z\<in>set mpre. memberNamed n z = None"
    by blast
  from x(2) have "x = m" "memberName m = Some n"
    by (auto simp: memberNamed_def split: if_splits)
  with x p show ?thesis by blast
qed

lemma append_shape:
  assumes mo: "moduleObjectLiteral sf = Inr mo"
      and gp: "map_option fst (getProperty prop mo) = Some (PropertyAssignment n i)"
      and ap: "appendIfPropertyAssignment svc (getProperty prop mo) e sf = Inr sf'"
      and pe: "parseElements svc e = Inr [e]"
  shows "moduleElementAppended prop e sf sf'"
proof -
  obtain ms put where mo': "mo = (ms, put)" by (cases mo)
  from gp obtain putp where g: "getProperty prop (ms, put) = Some (PropertyAssignment n i, putp)"
    unfolding mo' by auto
  from getProperty_shape[OF g] obtain mpre mpost where
    m: "ms = mpre @ PropertyAssignment n i # mpost" "n = prop"
       "putp = (\<lambda>m'. put (mpre @ m' # mpost))"
    by auto
  from ap g pe obtain es where
    i: "i = ArrayLiteralExpression es"
    and s: "sf' = putp (PropertyAssignment n (ArrayLiteralExpression (es @ [e])))"
    unfolding mo'
    by (auto simp: appendIfPropertyAssignment_def asArrayLiteralOrThrow_def addElement_def
             split: expression.splits)
  from moduleObjectLiteral_shape[OF mo[unfolded mo']] obtain pre c post dpre d dpost rest where
    sh: "sf = pre @ ClassDeclaration c # post" "cname c = Some ''AppModule''"
        "decorators c = dpre @ d # dpost" "decoratorName d = ''Module''"
        "arguments d = ObjectLiteralExpression ms # rest"
        "put = (\<lambda>ms'. pre @ ClassDeclaration
                        (c\<lparr>decorators := dpre @ d\<lparr>arguments := ObjectLiteralExpression ms' # rest\<rparr> # dpost\<rparr>)
                        # post)"
    by blast
  show ?thesis
    unfolding moduleElementAppended_def
    apply (rule exI[of _ pre], rule exI[of _ c], rule exI[of _ post], rule exI[of _ dpre],
           rule exI[of _ d], rule exI[of _ dpost], rule exI[of _ rest], rule exI[of _ mpre],
           rule exI[of _ es], rule exI[of _ mpost])
    using sh m i s by simp
qed

lemma moduleGenerator_success:
  assumes "moduleGenerator template prop e imp svc opts fs = (Inr (), fs')"
      and "fs (joinPath svc [''app'', ''module.ts'']) = Some reg"
      and "defaultImport imp = None"
  shows "\<exists>content mo mid.
           fs (joinPath svc [filePath opts]) = None
           \<and> joinPath svc [filePath opts] \<noteq> joinPath svc [''app'', ''module.ts'']
           \<and> renderAsync svc template (input opts) = Inr content
           \<and> moduleObjectLiteral reg = Inr mo
           \<and> appendIfPropertyAssignment svc (getProperty prop mo) e reg = Inr mid
           \<and> fs' = fs(joinPath svc [filePath opts] \<mapsto> content,
                       joinPath svc [''app'', ''module.ts''] \<mapsto> insertImportDeclaration imp mid)"
proof -
  from assms(1) have free: "fs (joinPath svc [filePath opts]) = None"
    by (auto simp: moduleGenerator_def checkIfFileAlreadyExists_def split: if_splits)
  with assms(2) have ne: "joinPath svc [filePath opts] \<noteq> joinPath svc [''app'', ''module.ts'']"
    by auto
  from assms(1) free obtain content where r: "renderAsync svc template (input opts) = Inr content"
    by (auto simp: moduleGenerator_def checkIfFileAlreadyExists_def split: sum.splits)
  from assms free ne r show ?thesis
    by (auto simp: moduleGenerator_def io_defs Let_def addImportDeclaration_named split: sum.splits)
qed


lemma located_Nil [simp]: "located f [] = None"
  by (simp add: located_def)

lemma located_Cons [simp]:
  "located f (x # xs) = (case f x of Some y \<Rightarrow> Some y | None \<Rightarrow> located f xs)"
  by (auto simp: located_def split: option.splits)

lemma located_skip: "(\<forall>z\<in>set pre. f z = None) \<Longrightarrow> located f (pre @ xs) = located f xs"
  by (induction pre) auto

lemma located_insert: "f x = None \<Longrightarrow> located f (pre @ x # post) = located f (pre @ post)"
  by (induction pre) (auto split: option.splits)

lemma moduleProperty_located:
  "moduleProperty prop sf =
     (case located (classNamed ''AppModule'') sf of
        None \<Rightarrow> Inl (InvalidOperationError ''AppModule'')
      | Some c \<Rightarrow>
     (case located (decoratorNamed ''Module'') (decorators c) of
        None \<Rightarrow> Inl (InvalidOperationError ''Module'')
      | Some d \<Rightarrow>
     (case arguments d of
        [] \<Rightarrow> Inl TypeError
      | ObjectLiteralExpression ms # _ \<Rightarrow> Inr (located (memberNamed prop) ms)
      | _ \<Rightarrow> Inl WrongKindError)))"
  by (simp add: moduleProperty_def moduleObjectLiteral_def getClassOrThrow_def getDecoratorOrThrow_def
        firstArgument_def asObjectLiteralOrThrow_def getProperty_def located_def
      split: option.splits list.splits expression.splits prod.splits)

lemma moduleProperty_insertImportDeclaration:
  "moduleProperty prop (insertImportDeclaration s sf) = moduleProperty prop sf"
proof -
  have "located (classNamed ''AppModule'') (insertImportDeclaration s sf)
          = located (classNamed ''AppModule'') (take (importInsertIndex sf) sf @ drop (importInsertIndex sf) sf)"
    unfolding insertImportDeclaration_def by (rule located_insert) simp
  then show ?thesis by (simp add: moduleProperty_located)
qed


lemma moduleProperty_at:
  assumes "\<forall>z\<in>set pre. classNamed ''AppModule'' z = None" "cname c = Some ''AppModule''"
      and "decorators c = dpre @ d # dpost" "\<forall>z\<in>set dpre. decoratorNamed ''Module'' z = None"
      and "decoratorName d = ''Module''" "arguments d = ObjectLiteralExpression ms # rest"
  shows "moduleProperty q (pre @ ClassDeclaration c # post) = Inr (located (memberNamed q) ms)"
  using assms by (simp add: moduleProperty_located located_skip decoratorNamed_def)

lemma located_memberNamed_at:
  assumes "\<forall>z\<in>set mpre. memberNamed prop z = None"
  shows "located (memberNamed q) (mpre @ PropertyAssignment prop i # mpost)
           = (if q = prop then Some (PropertyAssignment prop i)
              else located (memberNamed q) (mpre @ mpost))"
proof (cases "q = prop")
  case True
  with assms show ?thesis by (simp add: located_skip memberNamed_def)
next
  case False
  then have "memberNamed q (PropertyAssignment prop i) = None" by (auto simp: memberNamed_def)
  then have "located (memberNamed q) (mpre @ PropertyAssignment prop i # mpost)
               = located (memberNamed q) (mpre @ mpost)"
    by (rule located_insert)
  with False show ?thesis by simp
qed

lemma append_found:
  assumes mo: "moduleObjectLiteral sf = Inr mo"
      and gp: "map_option fst (getProperty prop mo) = Some (PropertyAssignment n (ArrayLiteralExpression es))"
      and pe: "parseElements svc e = Inr new"
  shows "\<exists>sf'. appendIfPropertyAssignment svc (getProperty prop mo) e sf = Inr sf'
           \<and> (\<forall>q. moduleProperty q sf' =
                 (if q = prop
                  then Inr (Some (PropertyAssignment prop (ArrayLiteralExpression (es @ new))))
                  else moduleProperty q sf))"
proof -
  obtain ms put where mo': "mo = (ms, put)" by (cases mo)
  from gp obtain putp where
    g: "getProperty prop (ms, put) = Some (PropertyAssignment n (ArrayLiteralExpression es), putp)"
    unfolding mo' by auto
  from getProperty_shape[OF g] obtain mpre mpost where
    m: "ms = mpre @ PropertyAssignment n (ArrayLiteralExpression es) # mpost" "n = prop"
       "\<forall>z\<in>set mpre. memberNamed prop z = None"
       "putp = (\<lambda>m'. put (mpre @ m' # mpost))"
    by auto
  from moduleObjectLiteral_shape[OF mo[unfolded mo']] obtain pre c post dpre d dpost rest where
    sh: "sf = pre @ ClassDeclaration c # post" "cname c = Some ''AppModule''"
        "\<forall>z\<in>set pre. classNamed ''AppModule'' z = None"
        "decorators c = dpre @ d # dpost" "decoratorName d = ''Module''"
        "\<forall>z\<in>set dpre. decoratorNamed ''Module'' z = None"
        "arguments d = ObjectLiteralExpression ms # rest"
        "put = (\<lambda>ms'. pre @ ClassDeclaration
                        (c\<lparr>decorators := dpre @ d\<lparr>arguments := ObjectLiteralExpression ms' # rest\<rparr> # dpost\<rparr>)
                        # post)"
    by blast
  let ?ms' = "mpre @ PropertyAssignment prop (ArrayLiteralExpression (es @ new)) # mpost"
  let ?d' = "d\<lparr>arguments := ObjectLiteralExpression ?ms' # rest\<rparr>"
  let ?c' = "c\<lparr>decorators := dpre @ ?d' # dpost\<rparr>"
  let ?sf' = "pre @ ClassDeclaration ?c' # post"
  have ap: "appendIfPropertyAssignment svc (getProperty prop mo) e sf = Inr ?sf'"
    unfolding mo' g using m(2,4) sh(8) pe
    by (simp add: appendIfPropertyAssignment_def asArrayLiteralOrThrow_def addElement_def)
  have old: "moduleProperty q sf = Inr (located (memberNamed q) ms)" for q
    unfolding sh(1) by (rule moduleProperty_at[OF sh(3) sh(2) sh(4) sh(6) sh(5) sh(7)])
  have new: "moduleProperty q ?sf' = Inr (located (memberNamed q) ?ms')" for q
    by (rule moduleProperty_at[where dpre = dpre and d = ?d' and dpost = dpost and rest = rest])
       (use sh in simp_all)
  have "moduleProperty q ?sf' =
          (if q = prop then Inr (Some (PropertyAssignment prop (ArrayLiteralExpression (es @ new))))
           else moduleProperty q sf)" for q
    unfolding old new m(1) m(2)
    by (simp add: located_memberNamed_at[OF m(3)])
  with ap show ?thesis by blast
qed

lemma append_parsed:
  assumes "map_option fst (getProperty prop mo) = Some (PropertyAssignment n i)"
      and "appendIfPropertyAssignment svc (getProperty prop mo) e sf = Inr sf'"
  shows "\<exists>es new. i = ArrayLiteralExpression es \<and> parseElements svc e = Inr new"
  using assms
  by (auto simp: appendIfPropertyAssignment_def asArrayLiteralOrThrow_def addElement_def
           split: option.splits object_member.splits expression.splits sum.splits)

lemma append_skipped:
  assumes "\<forall>n i. map_option fst (getProperty prop mo) \<noteq> Some (PropertyAssignment n i)"
  shows "appendIfPropertyAssignment svc (getProperty prop mo) e sf = Inr sf"
  using assms
  by (auto simp: appendIfPropertyAssignment_def split: option.splits object_member.splits)

lemma append_wrong_kind:
  assumes "map_option fst (getProperty prop mo) = Some (PropertyAssignment n i)"
      and "\<forall>es. i \<noteq> ArrayLiteralExpression es"
  shows "appendIfPropertyAssignment svc (getProperty prop mo) e sf = Inl WrongKindError"
  using assms
  by (auto simp: appendIfPropertyAssignment_def asArrayLiteralOrThrow_def
           split: option.splits object_member.splits expression.splits)


lemma moduleProperty_Inr:
  "moduleObjectLiteral sf = Inr mo \<Longrightarrow> moduleProperty prop sf = Inr (map_option fst (getProperty prop mo))"
  by (simp add: moduleProperty_def)

lemma moduleProperty_InrD:
  "moduleProperty prop sf = Inr m \<Longrightarrow>
     \<exists>mo. moduleObjectLiteral sf = Inr mo \<and> map_option fst (getProperty prop mo) = m"
  by (auto simp: moduleProperty_def split: sum.splits)

lemma moduleGenerator_effect:
  assumes ok: "moduleGenerator template prop e imp svc opts fs = (Inr (), fs')"
      and reg: "fs (joinPath svc [''app'', ''module.ts'']) = Some reg"
      and pa: "moduleProperty prop reg = Inr (Some (PropertyAssignment n i))"
      and pe: "parseElements svc e = Inr [e]"
      and ni: "defaultImport imp = None"
  shows "\<exists>content mid reg'.
           fs (joinPath svc [filePath opts]) = None
           \<and> renderAsync svc template (input opts) = Inr content
           \<and> moduleElementAppended prop e reg mid
           \<and> importInserted imp mid reg'
           \<and> fs' = fs(joinPath svc [filePath opts] \<mapsto> content,
                       joinPath svc [''app'', ''module.ts''] \<mapsto> reg')"
proof -
  from moduleGenerator_success[OF ok reg ni] obtain content mo mid where
    s: "fs (joinPath svc [filePath opts]) = None"
       "renderAsync svc template (input opts) = Inr content"
       "moduleObjectLiteral reg = Inr mo"
       "appendIfPropertyAssignment svc (getProperty prop mo) e reg = Inr mid"
       "fs' = fs(joinPath svc [filePath opts] \<mapsto> content,
                 joinPath svc [''app'', ''module.ts''] \<mapsto> insertImportDeclaration imp mid)"
    by blast
  from pa s(3) have gp: "map_option fst (getProperty prop mo) = Some (PropertyAssignment n i)"
    by (simp add: moduleProperty_def)
  from append_shape[OF s(3) gp s(4) pe] importInserted_add[of imp mid] s show ?thesis
    by blast
qed

lemma moduleGenerator_failure:
  assumes "moduleGenerator template prop e imp svc opts fs = (Inl err, fs')"
      and "fs (joinPath svc [filePath opts]) = None"
      and "renderAsync svc template (input opts) = Inr content"
  shows "fs' = fs(joinPath svc [filePath opts] \<mapsto> content)"
  using assms
  by (auto simp: moduleGenerator_def io_defs Let_def split: sum.splits option.splits)

lemma moduleGenerator_run:
  assumes "fs (joinPath svc [filePath opts]) = None"
      and "renderAsync svc template (input opts) = Inr content"
      and "fs (joinPath svc [''app'', ''module.ts'']) = Some reg"
      and "moduleObjectLiteral reg = Inr mo"
      and "defaultImport imp = None"
  shows "moduleGenerator template prop e imp svc opts fs =
           (case appendIfPropertyAssignment svc (getProperty prop mo) e reg of
              Inl err \<Rightarrow> (Inl err, fs(joinPath svc [filePath opts] \<mapsto> content))
            | Inr mid \<Rightarrow>
                (Inr (), fs(joinPath svc [filePath opts] \<mapsto> content,
                            joinPath svc [''app'', ''module.ts''] \<mapsto> insertImportDeclaration imp mid)))"
proof -
  from assms(1,3) have "joinPath svc [''app'', ''module.ts''] \<noteq> joinPath svc [filePath opts]"
    by auto
  with assms show ?thesis
    by (simp add: moduleGenerator_def io_defs Let_def addImportDeclaration_named split: sum.splits)
qed

lemma moduleGenerator_unchanged_registry:
  assumes "fs (joinPath svc [''app'', ''module.ts'']) = Some reg"
      and "fst (moduleGenerator template prop e imp svc opts fs) = Inl err"
  shows "snd (moduleGenerator template prop e imp svc opts fs) (joinPath svc [''app'', ''module.ts'']) = Some reg"
proof (cases "fs (joinPath svc [filePath opts]) = None")
  case False
  then show ?thesis using assms(1) by (simp add: moduleGenerator_def io_defs)
next
  case True
  with assms(1) have "joinPath svc [''app'', ''module.ts''] \<noteq> joinPath svc [filePath opts]"
    by auto
  with True assms show ?thesis
    by (auto simp: moduleGenerator_def io_defs Let_def split: sum.splits)
qed

lemma getExportAssignment_shape:
  assumes "getExportAssignment (\<lambda>b. b = False) sf = Some (e, put)"
  shows "\<exists>pre post. sf = pre @ ExportAssignment False e # post
           \<and> (\<forall>z\<in>set pre. exportAssignmentWhere (\<lambda>b. b = False) z = None)
           \<and> put = (\<lambda>e'. pre @ ExportAssignment False e' # post)"
proof -
  from assms obtain pre b post where
    l: "locate (exportAssignmentWhere (\<lambda>b. b = False)) sf = Some (pre, (b, e), post)"
    and p: "put = (\<lambda>e'. pre @ ExportAssignment b e' # post)"
    by (auto simp: getExportAssignment_def split: option.splits)
  from locate_SomeD[OF l] obtain x where
    x: "sf = pre @ x # post" "exportAssignmentWhere (\<lambda>b. b = False) x = Some (b, e)"
       "\<forall>z\<in>set pre. exportAssignmentWhere (\<lambda>b. b = False) z = None"
    by blast
  from x(2) have "x = ExportAssignment False e \<and> b = False"
    by (cases x) (auto split: if_splits)
  with x p show ?thesis by blast
qed

lemma createConfigFile_run:
  assumes free: "fs (joinPath svc [filePath opts]) = None"
      and r: "renderAsync svc ''config'' (input opts) = Inr content"
      and reg: "fs (joinPath svc [''config/index.ts'']) = Some reg"
  shows "createConfigFile svc opts fs =
           (case parseDefaultImport svc (fileNameWithoutEx opts) of
              Inl e \<Rightarrow> (Inl e, fs(joinPath svc [filePath opts] \<mapsto> content))
            | Inr _ \<Rightarrow>
           (case getExportAssignment (\<lambda>b. b = False)
                   (insertImportDeclaration (configImport opts) reg) of
              None \<Rightarrow> (Inr (), fs(joinPath svc [filePath opts] \<mapsto> content))
            | Some defaultExport \<Rightarrow>
           (case asArrayLiteralOrThrow defaultExport of
              Inl e \<Rightarrow> (Inl e, fs(joinPath svc [filePath opts] \<mapsto> content))
            | Inr arrayLiteral \<Rightarrow>
           (case addElement svc (fileNameWithoutEx opts) arrayLiteral of
              Inl e \<Rightarrow> (Inl e, fs(joinPath svc [filePath opts] \<mapsto> content))
            | Inr indexText \<Rightarrow>
                (Inr (), fs(joinPath svc [filePath opts] \<mapsto> content,
                            joinPath svc [''config/index.ts''] \<mapsto> indexText))))))"
proof -
  from free reg have ne: "joinPath svc [''config/index.ts''] \<noteq> joinPath svc [filePath opts]"
    by auto
  have imp: "\<lparr>defaultImport = Some (fileNameWithoutEx opts), namedImports = [],
              moduleSpecifier = ''./'' @ fileNameWithoutEx opts\<rparr> = configImport opts"
    by (simp add: configImport_def)
  show ?thesis
    unfolding createConfigFile_def imp
    using free r reg ne
    by (auto simp: io_defs Let_def addImportDeclaration_default split: sum.splits option.splits)
qed

lemma createConfigFile_free:
  "createConfigFile svc opts fs = (Inr (), fs') \<Longrightarrow> fs (joinPath svc [filePath opts]) = None"
  by (auto simp: createConfigFile_def checkIfFileAlreadyExists_def split: if_splits)

lemma createConfigFile_rendered:
  "createConfigFile svc opts fs = (Inr (), fs') \<Longrightarrow>
     \<exists>content. renderAsync svc ''config'' (input opts) = Inr content"
  by (auto simp: createConfigFile_def checkIfFileAlreadyExists_def split: if_splits sum.splits)

lemma createConfigFile_effect:
  assumes ok: "createConfigFile svc opts fs = (Inr (), fs')"
      and reg: "fs (joinPath svc [''config/index.ts'']) = Some reg"
      and ex: "ExportAssignment False e0 \<in> set reg"
      and pe: "parseElements svc (fileNameWithoutEx opts) = Inr [fileNameWithoutEx opts]"
  shows "\<exists>content mid reg'.
           fs (joinPath svc [filePath opts]) = None
           \<and> renderAsync svc ''config'' (input opts) = Inr content
           \<and> importInserted (configImport opts) reg mid
           \<and> exportElementAppended (fileNameWithoutEx opts) mid reg'
           \<and> fs' = fs(joinPath svc [filePath opts] \<mapsto> content,
                       joinPath svc [''config/index.ts''] \<mapsto> reg')"
proof -
  let ?mid = "insertImportDeclaration (configImport opts) reg"
  note free = createConfigFile_free[OF ok]
  from createConfigFile_rendered[OF ok] obtain content where
    r: "renderAsync svc ''config'' (input opts) = Inr content" ..
  from ex have "getExportAssignment (\<lambda>b. b = False) ?mid \<noteq> None"
    unfolding getExportAssignment_None_iff set_insertImportDeclaration
    by (auto intro!: bexI[of _ "ExportAssignment False e0"])
  then obtain e put where g: "getExportAssignment (\<lambda>b. b = False) ?mid = Some (e, put)"
    by auto
  from getExportAssignment_shape[OF g] obtain pre post where
    sh: "?mid = pre @ ExportAssignment False e # post"
        "put = (\<lambda>e'. pre @ ExportAssignment False e' # post)"
    by blast
  from ok[unfolded createConfigFile_run[OF free r reg] g] pe obtain es where
    e: "e = ArrayLiteralExpression es"
    and f: "fs' = fs(joinPath svc [filePath opts] \<mapsto> content,
                     joinPath svc [''config/index.ts''] \<mapsto>
                       put (ArrayLiteralExpression (es @ [fileNameWithoutEx opts])))"
    by (auto simp: asArrayLiteralOrThrow_def addElement_def split: sum.splits expression.splits)
  have "exportElementAppended (fileNameWithoutEx opts) ?mid
          (put (ArrayLiteralExpression (es @ [fileNameWithoutEx opts])))"
    unfolding exportElementAppended_def using sh e by blast
  with free r f importInserted_add[of "configImport opts" reg] show ?thesis by blast
qed


lemmas lookup_defs = moduleProperty_def moduleArray_def exportArray_def moduleObjectLiteral_def
  getClassOrThrow_def getDecoratorOrThrow_def decoratorNamed_def firstArgument_def
  asObjectLiteralOrThrow_def getProperty_def memberNamed_def appendIfPropertyAssignment_def
  asArrayLiteralOrThrow_def addElement_def addImportDeclaration_def insertImportDeclaration_def
  importInsertIndex_def getExportAssignment_def elementsRead_def

lemma moduleArray_SomeD:
  "moduleArray prop sf = Some es \<Longrightarrow>
     \<exists>n. moduleProperty prop sf = Inr (Some (PropertyAssignment n (ArrayLiteralExpression es)))"
  by (auto simp: moduleArray_def split: sum.splits option.splits object_member.splits expression.splits)

lemma moduleGenerator_appends:
  assumes free: "fs (joinPath svc [filePath opts]) = None"
      and r: "renderAsync svc template (input opts) = Inr content"
      and reg: "fs (joinPath svc [''app'', ''module.ts'']) = Some reg"
      and arr: "moduleArray prop reg = Some es"
      and pe: "parseElements svc e = Inr new"
      and ni: "defaultImport imp = None"
  shows "\<exists>reg'. moduleGenerator template prop e imp svc opts fs =
                  (Inr (), fs(joinPath svc [filePath opts] \<mapsto> content,
                              joinPath svc [''app'', ''module.ts''] \<mapsto> reg'))
               \<and> moduleArray prop reg' = Some (es @ new)"
proof -
  from moduleArray_SomeD[OF arr] obtain n where
    p: "moduleProperty prop reg = Inr (Some (PropertyAssignment n (ArrayLiteralExpression es)))" ..
  from moduleProperty_InrD[OF p] obtain mo where
    mo: "moduleObjectLiteral reg = Inr mo"
        "map_option fst (getProperty prop mo) = Some (PropertyAssignment n (ArrayLiteralExpression es))"
    by blast
  from append_found[OF mo pe] obtain mid where
    mid: "appendIfPropertyAssignment svc (getProperty prop mo) e reg = Inr mid"
         "moduleProperty prop mid = Inr (Some (PropertyAssignment prop (ArrayLiteralExpression (es @ new))))"
    by auto
  have "moduleArray prop (insertImportDeclaration imp mid) = Some (es @ new)"
    by (simp add: moduleArray_def moduleProperty_insertImportDeclaration mid(2))
  moreover note moduleGenerator_run[OF free r reg mo(1) ni] mid(1)
  ultimately show ?thesis
    by (intro exI[of _ "insertImportDeclaration imp mid"]) simp
qed

section \<open>The existence guard\<close>

text \<open>
  C3. In each of the six generators, a target path that exists below the project root makes
  the call fail with the error whose message is the path followed by
  \<^verbatim>\<open> already exists\<close>, whatever the renderer would do, and the disk is left as it was.
\<close>

theorem existing_target_fails_without_effect:
  assumes "fs (joinPath svc [filePath opts]) \<noteq> None"
  shows "createConfigFile svc opts fs = (Inl (Error (filePath opts @ '' already exists'')), fs)
       \<and> createController svc opts fs = (Inl (Error (filePath opts @ '' already exists'')), fs)
       \<and> createService svc opts fs = (Inl (Error (filePath opts @ '' already exists'')), fs)
       \<and> createException svc opts fs = (Inl (Error (filePath opts @ '' already exists'')), fs)
       \<and> createRepo svc opts fs = (Inl (Error (filePath opts @ '' already exists'')), fs)
       \<and> createModel svc opts fs = (Inl (Error (filePath opts @ '' already exists'')), fs)"
  using assms
  by (simp add: createConfigFile_def createController_def createService_def createException_def
        createRepo_def createModel_def checkIfFileAlreadyExists_def)

theorem existing_target_fails_without_effect_witness:
  "(sampleDisk(''/app/controllers/widget.ts'' \<mapsto> [])) (joinPath sampleService [filePath sampleOptions]) \<noteq> None
   \<and> createController sampleService sampleOptions (sampleDisk(''/app/controllers/widget.ts'' \<mapsto> []))
       = (Inl (Error ''app/controllers/widget.ts already exists''),
          sampleDisk(''/app/controllers/widget.ts'' \<mapsto> []))
   \<and> createModel sampleService sampleOptions (sampleDisk(''/app/controllers/widget.ts'' \<mapsto> []))
       = (Inl (Error ''app/controllers/widget.ts already exists''),
          sampleDisk(''/app/controllers/widget.ts'' \<mapsto> []))"
proof -
  have h: "(sampleDisk(''/app/controllers/widget.ts'' \<mapsto> []))
             (joinPath sampleService [filePath sampleOptions]) \<noteq> None"
    by (simp add: sampleService_def sampleOptions_def)
  have f: "filePath sampleOptions = ''app/controllers/widget.ts''"
    by (simp add: sampleOptions_def)
  show ?thesis
    using h existing_target_fails_without_effect
            [where fs = "sampleDisk(''/app/controllers/widget.ts'' \<mapsto> [])"
               and svc = sampleService and opts = sampleOptions, OF h]
    by (simp add: f)
qed

section \<open>Kinds without registration\<close>

text \<open>
  C8. A successful exception or model generation found the target path free and leaves the
  disk changed at the target path only, where it holds the render of the kind's template.
  The outcome is the same on every disk on which the target path is free: no other file,
  so no registry file, is read or written.
\<close>

theorem exception_and_model_touch_only_target:
  "(createException svc opts fs = (Inr (), fs') \<longrightarrow>
      (\<exists>content. renderAsync svc ''exception'' (input opts) = Inr content
         \<and> fs (joinPath svc [filePath opts]) = None
         \<and> fs' = fs(joinPath svc [filePath opts] \<mapsto> content)
         \<and> (\<forall>fs2. fs2 (joinPath svc [filePath opts]) = None \<longrightarrow>
               createException svc opts fs2 = (Inr (), fs2(joinPath svc [filePath opts] \<mapsto> content)))))
   \<and> (createModel svc opts fs = (Inr (), fs') \<longrightarrow>
      (\<exists>content. renderAsync svc ''model'' (input opts) = Inr content
         \<and> fs (joinPath svc [filePath opts]) = None
         \<and> fs' = fs(joinPath svc [filePath opts] \<mapsto> content)
         \<and> (\<forall>fs2. fs2 (joinPath svc [filePath opts]) = None \<longrightarrow>
               createModel svc opts fs2 = (Inr (), fs2(joinPath svc [filePath opts] \<mapsto> content)))))"
  by (auto simp: createException_def createModel_def io_defs split: if_splits sum.splits)

theorem exception_and_model_touch_only_target_witness:
  "createException sampleService sampleOptions sampleDisk
     = (Inr (), sampleDisk(''/app/controllers/widget.ts'' \<mapsto> sampleContent ''exception''))
   \<and> createModel sampleService sampleOptions sampleDisk
     = (Inr (), sampleDisk(''/app/controllers/widget.ts'' \<mapsto> sampleContent ''model''))
   \<and> renderAsync sampleService ''exception'' (input sampleOptions) = Inr (sampleContent ''exception'')
   \<and> renderAsync sampleService ''model'' (input sampleOptions) = Inr (sampleContent ''model'')
   \<and> sampleDisk (joinPath sampleService [filePath sampleOptions]) = None"
proof -
  have e: "createException sampleService sampleOptions sampleDisk
     = (Inr (), sampleDisk(''/app/controllers/widget.ts'' \<mapsto> sampleContent ''exception''))"
    by (simp add: createException_def io_defs sample_defs)
  have m: "createModel sampleService sampleOptions sampleDisk
     = (Inr (), sampleDisk(''/app/controllers/widget.ts'' \<mapsto> sampleContent ''model''))"
    by (simp add: createModel_def io_defs sample_defs)
  from exception_and_model_touch_only_target
         [of sampleService sampleOptions sampleDisk
             "sampleDisk(''/app/controllers/widget.ts'' \<mapsto> sampleContent ''exception'')"]
       e
  have 1: "sampleDisk (joinPath sampleService [filePath sampleOptions]) = None" by blast
  from exception_and_model_touch_only_target
         [of sampleService sampleOptions sampleDisk
             "sampleDisk(''/app/controllers/widget.ts'' \<mapsto> sampleContent ''model'')"]
       m
  have 2: "sampleDisk (joinPath sampleService [filePath sampleOptions]) = None" by blast
  show ?thesis
    using e m 1 2 by (simp add: sampleService_def sampleOptions_def sampleContent_def)
qed

section \<open>The configuration index without a default export\<close>

text \<open>
  C4, as the code has it. The import with \<^verbatim>\<open>fileNameWithoutEx\<close> as its default import is
  added to the tree before the default export is looked for, and the library raises there
  when that name is not read back as a default import. So the claim holds for the names
  that are: when moreover the target path is free, the template renders, and the index file
  \<^verbatim>\<open>config/index.ts\<close> is there but has no default export assignment, \<^verbatim>\<open>createConfigFile\<close>
  returns without an error, and the only change of the disk is the new file: no array of any
  file gains an element.
\<close>

theorem config_without_default_export_completes:
  assumes "fs (joinPath svc [filePath opts]) = None"
      and "renderAsync svc ''config'' (input opts) = Inr content"
      and "fs (joinPath svc [''config/index.ts'']) = Some reg"
      and "\<forall>e. ExportAssignment False e \<notin> set reg"
      and "parseDefaultImport svc (fileNameWithoutEx opts) = Inr ()"
  shows "createConfigFile svc opts fs = (Inr (), fs(joinPath svc [filePath opts] \<mapsto> content))"
  using createConfigFile_run[OF assms(1-3)] no_default_export_after_import[OF assms(4)] assms(5)
  by simp

theorem config_without_default_export_completes_witness:
  "[''/config/index.ts'' \<mapsto> [ExportAssignment True (ArrayLiteralExpression [''app''])]]
      (joinPath sampleService [filePath sampleOptions]) = None
   \<and> renderAsync sampleService ''config'' (input sampleOptions) = Inr (sampleContent ''config'')
   \<and> [''/config/index.ts'' \<mapsto> [ExportAssignment True (ArrayLiteralExpression [''app''])]]
        (joinPath sampleService [''config/index.ts''])
       = Some [ExportAssignment True (ArrayLiteralExpression [''app''])]
   \<and> (\<forall>e. ExportAssignment False e \<notin> set [ExportAssignment True (ArrayLiteralExpression [''app''])])
   \<and> parseDefaultImport sampleService (fileNameWithoutEx sampleOptions) = Inr ()
   \<and> createConfigFile sampleService sampleOptions
        [''/config/index.ts'' \<mapsto> [ExportAssignment True (ArrayLiteralExpression [''app''])]]
       = (Inr (),
          [''/config/index.ts'' \<mapsto> [ExportAssignment True (ArrayLiteralExpression [''app''])],
           ''/app/controllers/widget.ts'' \<mapsto> sampleContent ''config''])"
proof -
  let ?reg = "[ExportAssignment True (ArrayLiteralExpression [''app''])]"
  let ?fs = "[''/config/index.ts'' \<mapsto> ?reg]"
  have 1: "?fs (joinPath sampleService [filePath sampleOptions]) = None"
    by (simp add: sample_defs)
  have 2: "renderAsync sampleService ''config'' (input sampleOptions) = Inr (sampleContent ''config'')"
    by (simp add: sample_defs)
  have 3: "?fs (joinPath sampleService [''config/index.ts'']) = Some ?reg"
    by (simp add: sample_defs)
  have 4: "\<forall>e. ExportAssignment False e \<notin> set ?reg"
    by simp
  have 5: "parseDefaultImport sampleService (fileNameWithoutEx sampleOptions) = Inr ()"
    by (simp add: sample_defs)
  have p: "joinPath sampleService [filePath sampleOptions] = ''/app/controllers/widget.ts''"
    by (simp add: sample_defs)
  have c: "createConfigFile sampleService sampleOptions ?fs
             = (Inr (), ?fs(''/app/controllers/widget.ts'' \<mapsto> sampleContent ''config''))"
    using config_without_default_export_completes [OF 1 2 3 4 5] by (simp only: p)
  show ?thesis
    using 1 2 3 4 5 c by blast
qed

theorem config_default_import_refused_counterexample:
  "createConfigFile sampleService
     \<lparr>filePath = ''config/rate-limit.ts'', fileNameWithoutEx = ''rate-limit'',
      input = \<lparr>controllerName = ''RateLimit'', className = ''RateLimit'', placeholders = []\<rparr>,
      repoToken = ''NONE''\<rparr>
     [''/config/index.ts'' \<mapsto> [OtherStatement ''export const a = 1;'']]
   = (Inl NotImplementedError,
      [''/config/index.ts'' \<mapsto> [OtherStatement ''export const a = 1;''],
       ''/config/rate-limit.ts'' \<mapsto> [OtherStatement ''config RateLimitRateLimit'']])"
  by (simp add: createConfigFile_def io_defs sample_defs addImportDeclaration_def)

text \<open>
  C5. When \<^verbatim>\<open>config/index.ts\<close> is on the disk and has no default export assignment, the disk
  holds the same index file after \<^verbatim>\<open>createConfigFile\<close>, however the call ends: the import
  declaration added to the tree is never saved.
\<close>

theorem config_without_default_export_keeps_registry:
  assumes "fs (joinPath svc [''config/index.ts'']) = Some reg"
      and "\<forall>e. ExportAssignment False e \<notin> set reg"
  shows "snd (createConfigFile svc opts fs) (joinPath svc [''config/index.ts'']) = Some reg"
proof (cases "fs (joinPath svc [filePath opts]) = None")
  case False
  then show ?thesis using assms(1) by (simp add: createConfigFile_def io_defs)
next
  case True
  then have ne: "joinPath svc [''config/index.ts''] \<noteq> joinPath svc [filePath opts]"
    using assms(1) by auto
  show ?thesis
  proof (cases "renderAsync svc ''config'' (input opts)")
    case (Inl e)
    with True assms(1) show ?thesis by (simp add: createConfigFile_def io_defs)
  next
    case (Inr content)
    from createConfigFile_run[OF True Inr assms(1)] no_default_export_after_import[OF assms(2)]
         assms(1) ne
    show ?thesis by (simp split: sum.splits)
  qed
qed

theorem config_without_default_export_keeps_registry_witness:
  "[''/config/index.ts'' \<mapsto> [OtherStatement ''export const a = 1;'']]
        (joinPath sampleService [''config/index.ts''])
       = Some [OtherStatement ''export const a = 1;'']
   \<and> (\<forall>e. ExportAssignment False e \<notin> set [OtherStatement ''export const a = 1;''])
   \<and> snd (createConfigFile sampleService sampleOptions
             [''/config/index.ts'' \<mapsto> [OtherStatement ''export const a = 1;'']])
        ''/config/index.ts''
       = Some [OtherStatement ''export const a = 1;'']"
proof -
  let ?reg = "[OtherStatement ''export const a = 1;'']"
  let ?fs = "[''/config/index.ts'' \<mapsto> ?reg]"
  have 1: "?fs (joinPath sampleService [''config/index.ts'']) = Some ?reg"
    by (simp add: sample_defs)
  have 2: "\<forall>e. ExportAssignment False e \<notin> set ?reg"
    by simp
  have p: "joinPath sampleService [''config/index.ts''] = ''/config/index.ts''"
    by (simp add: sample_defs)
  show ?thesis
    using 1 2 config_without_default_export_keeps_registry
            [where fs = "?fs" and svc = sampleService and opts = sampleOptions, OF 1 2]
    by (simp add: p)
qed

section \<open>The validated payload\<close>

text \<open>
  C10. The factory of the \<^verbatim>\<open>Dto\<close> parameter decorator returns the \<^verbatim>\<open>_dto\<close> field of the
  WebSocket client when the context type is \<^verbatim>\<open>ws\<close>, and the result of \<^verbatim>\<open>dto()\<close> on the HTTP
  request for every other context type.
\<close>

theorem Dto_by_transport:
  "(contextType ctx = ''ws'' \<longrightarrow> Dto data ctx = dto_field (switchToWs_getClient ctx))
   \<and> (contextType ctx \<noteq> ''ws'' \<longrightarrow> Dto data ctx = dto (switchToHttp_getRequest ctx) ())"
  by (simp add: Dto_def)

theorem Dto_by_transport_witness:
  "Dto ''body'' \<lparr>contextType = ''ws'', switchToWs_getClient = \<lparr>dto_field = (1::nat)\<rparr>,
                 switchToHttp_getRequest = \<lparr>dto = (\<lambda>_. 2)\<rparr>\<rparr> = 1
   \<and> Dto ''body'' \<lparr>contextType = ''http'', switchToWs_getClient = \<lparr>dto_field = (1::nat)\<rparr>,
                   switchToHttp_getRequest = \<lparr>dto = (\<lambda>_. 2)\<rparr>\<rparr> = 2"
  using Dto_by_transport
          [of "\<lparr>contextType = ''ws'', switchToWs_getClient = \<lparr>dto_field = (1::nat)\<rparr>,
                switchToHttp_getRequest = \<lparr>dto = (\<lambda>_. 2)\<rparr>\<rparr>" "''body''"]
        Dto_by_transport
          [of "\<lparr>contextType = ''http'', switchToWs_getClient = \<lparr>dto_field = (1::nat)\<rparr>,
                switchToHttp_getRequest = \<lparr>dto = (\<lambda>_. 2)\<rparr>\<rparr>" "''body''"]
  by simp

section \<open>The provider binding of a repository\<close>

text \<open>
  C6, as the code has it. The binding text is
  \<^verbatim>\<open>{ provide: '<repoToken>', useClass: <className>, }\<close> with the token and the class name
  spliced in as they are, and it is handed to \<^verbatim>\<open>addElement\<close> as text. When the library reads
  that text as the one element it spells (a token with a quote in it is not read so),
  the target path is free, the template renders, and the module file holds a
  \<^verbatim>\<open>providers\<close> array, \<^verbatim>\<open>createRepo\<close> succeeds and the array the module file then holds is
  the old one followed by that one element.
\<close>

theorem repo_provider_binding:
  assumes "fs (joinPath svc [filePath opts]) = None"
      and "renderAsync svc ''repositoryDB'' (input opts) = Inr content"
      and "fs (joinPath svc [''app'', ''module.ts'']) = Some reg"
      and "moduleArray ''providers'' reg = Some es"
      and "parseElements svc
             (''{ provide: '' @ [CHR 0x27] @ repoToken opts @ [CHR 0x27]
                @ '', useClass: '' @ className (input opts) @ '', }'')
           = Inr [''{ provide: '' @ [CHR 0x27] @ repoToken opts @ [CHR 0x27]
                    @ '', useClass: '' @ className (input opts) @ '', }'']"
  shows "\<exists>reg'. createRepo svc opts fs =
                  (Inr (), fs(joinPath svc [filePath opts] \<mapsto> content,
                              joinPath svc [''app'', ''module.ts''] \<mapsto> reg'))
               \<and> moduleArray ''providers'' reg' =
                   Some (es @ [''{ provide: '' @ [CHR 0x27] @ repoToken opts @ [CHR 0x27]
                                @ '', useClass: '' @ className (input opts) @ '', }''])"
proof -
  have b: "providerBinding (repoToken opts) (className (input opts))
             = ''{ provide: '' @ [CHR 0x27] @ repoToken opts @ [CHR 0x27]
                 @ '', useClass: '' @ className (input opts) @ '', }''"
    by (simp add: providerBinding_def)
  have pe: "parseElements svc (providerBinding (repoToken opts) (className (input opts)))
              = Inr [providerBinding (repoToken opts) (className (input opts))]"
    unfolding b by (rule assms(5))
  have ni: "defaultImport (repoImport opts) = None" by simp
  from moduleGenerator_appends[OF assms(1-4) pe ni] show ?thesis
    unfolding createRepo_generic b .
qed

theorem repo_provider_binding_witness:
  "sampleDisk (joinPath sampleService [filePath sampleOptions]) = None
   \<and> renderAsync sampleService ''repositoryDB'' (input sampleOptions) = Inr (sampleContent ''repositoryDB'')
   \<and> sampleDisk (joinPath sampleService [''app'', ''module.ts'']) = Some (moduleWith sampleObject)
   \<and> moduleArray ''providers'' (moduleWith sampleObject) = Some [''AppService'']
   \<and> parseElements sampleService
        (''{ provide: '' @ [CHR 0x27] @ ''WIDGET_REPO'' @ [CHR 0x27]
           @ '', useClass: WidgetRepository, }'')
      = Inr [''{ provide: '' @ [CHR 0x27] @ ''WIDGET_REPO'' @ [CHR 0x27]
               @ '', useClass: WidgetRepository, }'']
   \<and> (\<exists>reg'. createRepo sampleService sampleOptions sampleDisk =
                  (Inr (), sampleDisk(joinPath sampleService [filePath sampleOptions] \<mapsto> sampleContent ''repositoryDB'',
                              joinPath sampleService [''app'', ''module.ts''] \<mapsto> reg'))
               \<and> moduleArray ''providers'' reg' =
                   Some [''AppService'', ''{ provide: '' @ [CHR 0x27] @ ''WIDGET_REPO'' @ [CHR 0x27]
                                @ '', useClass: WidgetRepository, }''])"
proof -
  have 1: "sampleDisk (joinPath sampleService [filePath sampleOptions]) = None"
    by (simp add: sample_defs)
  have 2: "renderAsync sampleService ''repositoryDB'' (input sampleOptions) = Inr (sampleContent ''repositoryDB'')"
    by (simp add: sample_defs)
  have 3: "sampleDisk (joinPath sampleService [''app'', ''module.ts'']) = Some (moduleWith sampleObject)"
    by (simp add: sample_defs)
  have 4: "moduleArray ''providers'' (moduleWith sampleObject) = Some [''AppService'']"
    by (simp add: sample_defs lookup_defs)
  have t: "repoToken sampleOptions = ''WIDGET_REPO''" "className (input sampleOptions) = ''WidgetRepository''"
    by (simp_all add: sample_defs)
  have 5: "parseElements sampleService
             (''{ provide: '' @ [CHR 0x27] @ ''WIDGET_REPO'' @ [CHR 0x27]
                @ '', useClass: WidgetRepository, }'')
           = Inr [''{ provide: '' @ [CHR 0x27] @ ''WIDGET_REPO'' @ [CHR 0x27]
                    @ '', useClass: WidgetRepository, }'']"
    by (simp add: sample_defs)
  have p5: "parseElements sampleService
             (''{ provide: '' @ [CHR 0x27] @ repoToken sampleOptions @ [CHR 0x27]
                @ '', useClass: '' @ className (input sampleOptions) @ '', }'')
           = Inr [''{ provide: '' @ [CHR 0x27] @ repoToken sampleOptions @ [CHR 0x27]
                    @ '', useClass: '' @ className (input sampleOptions) @ '', }'']"
    unfolding t using 5 by simp
  from repo_provider_binding[OF 1 2 3 4 p5] have 6:
    "\<exists>reg'. createRepo sampleService sampleOptions sampleDisk =
                  (Inr (), sampleDisk(joinPath sampleService [filePath sampleOptions] \<mapsto> sampleContent ''repositoryDB'',
                              joinPath sampleService [''app'', ''module.ts''] \<mapsto> reg'))
               \<and> moduleArray ''providers'' reg' =
                   Some [''AppService'', ''{ provide: '' @ [CHR 0x27] @ ''WIDGET_REPO'' @ [CHR 0x27]
                                @ '', useClass: WidgetRepository, }'']"
    unfolding t by simp
  from 1 2 3 4 5 6 show ?thesis by blast
qed

theorem repo_token_with_quote_counterexample:
  "createRepo sampleService
     \<lparr>filePath = ''app/repositories/widget.ts'', fileNameWithoutEx = ''widget'',
      input = \<lparr>controllerName = ''WidgetController'', className = ''WidgetRepository'',
               placeholders = []\<rparr>,
      repoToken = ''IT'' @ [CHR 0x27] @ ''S''\<rparr>
     sampleDisk
   = (Inl ManipulationError,
      sampleDisk(''/app/repositories/widget.ts'' \<mapsto> sampleContent ''repositoryDB''))"
  by (simp add: createRepo_def providerBinding_def io_defs sample_defs lookup_defs)

section \<open>Registration in the module file and in the configuration index\<close>

lemmas gen_defs = createConfigFile_def createController_def createService_def createRepo_def
  createException_def createModel_def providerBinding_def

text \<open>
  C1, as the code has it. The claim needs three provisos. The registry file is on the disk
  before the call. The array is there to be found: the index has a default export
  assignment, the module object has the property \<^verbatim>\<open>controllers\<close> (\<^verbatim>\<open>providers\<close>) as a property
  assignment. And the text handed to \<^verbatim>\<open>addElement\<close> is read by the library as the one
  element it spells, as a symbol name is. Then a successful generation found the target
  path free, wrote the render of the kind's template there, and replaced the registry by a
  text that differs from the old one by one inserted import and one appended element; every
  other path of the disk is as before.
\<close>

theorem registering_generation_effect:
  "(createConfigFile svc opts fs = (Inr (), fs')
      \<and> fs (joinPath svc [''config/index.ts'']) = Some reg
      \<and> (\<exists>e. ExportAssignment False e \<in> set reg)
      \<and> parseElements svc (fileNameWithoutEx opts) = Inr [fileNameWithoutEx opts] \<longrightarrow>
      (\<exists>content mid reg'.
          fs (joinPath svc [filePath opts]) = None
          \<and> renderAsync svc ''config'' (input opts) = Inr content
          \<and> importInserted (configImport opts) reg mid
          \<and> exportElementAppended (fileNameWithoutEx opts) mid reg'
          \<and> fs' = fs(joinPath svc [filePath opts] \<mapsto> content,
                      joinPath svc [''config/index.ts''] \<mapsto> reg')))
   \<and> (createController svc opts fs = (Inr (), fs')
      \<and> fs (joinPath svc [''app'', ''module.ts'']) = Some reg
      \<and> (\<exists>n i. moduleProperty ''controllers'' reg = Inr (Some (PropertyAssignment n i)))
      \<and> parseElements svc (controllerName (input opts)) = Inr [controllerName (input opts)] \<longrightarrow>
      (\<exists>content mid reg'.
          fs (joinPath svc [filePath opts]) = None
          \<and> renderAsync svc ''controller'' (input opts) = Inr content
          \<and> moduleElementAppended ''controllers'' (controllerName (input opts)) reg mid
          \<and> importInserted (controllerImport opts) mid reg'
          \<and> fs' = fs(joinPath svc [filePath opts] \<mapsto> content,
                      joinPath svc [''app'', ''module.ts''] \<mapsto> reg')))
   \<and> (createService svc opts fs = (Inr (), fs')
      \<and> fs (joinPath svc [''app'', ''module.ts'']) = Some reg
      \<and> (\<exists>n i. moduleProperty ''providers'' reg = Inr (Some (PropertyAssignment n i)))
      \<and> parseElements svc (className (input opts)) = Inr [className (input opts)] \<longrightarrow>
      (\<exists>content mid reg'.
          fs (joinPath svc [filePath opts]) = None
          \<and> renderAsync svc ''service'' (input opts) = Inr content
          \<and> moduleElementAppended ''providers'' (className (input opts)) reg mid
          \<and> importInserted (serviceImport opts) mid reg'
          \<and> fs' = fs(joinPath svc [filePath opts] \<mapsto> content,
                      joinPath svc [''app'', ''module.ts''] \<mapsto> reg')))
   \<and> (createRepo svc opts fs = (Inr (), fs')
      \<and> fs (joinPath svc [''app'', ''module.ts'']) = Some reg
      \<and> (\<exists>n i. moduleProperty ''providers'' reg = Inr (Some (PropertyAssignment n i)))
      \<and> parseElements svc (providerBinding (repoToken opts) (className (input opts)))
          = Inr [providerBinding (repoToken opts) (className (input opts))] \<longrightarrow>
      (\<exists>content mid reg'.
          fs (joinPath svc [filePath opts]) = None
          \<and> renderAsync svc ''repositoryDB'' (input opts) = Inr content
          \<and> moduleElementAppended ''providers''
               (providerBinding (repoToken opts) (className (input opts))) reg mid
          \<and> importInserted (repoImport opts) mid reg'
          \<and> fs' = fs(joinPath svc [filePath opts] \<mapsto> content,
                      joinPath svc [''app'', ''module.ts''] \<mapsto> reg')))"
proof (intro conjI impI)
  assume "createConfigFile svc opts fs = (Inr (), fs')
      \<and> fs (joinPath svc [''config/index.ts'']) = Some reg
      \<and> (\<exists>e. ExportAssignment False e \<in> set reg)
      \<and> parseElements svc (fileNameWithoutEx opts) = Inr [fileNameWithoutEx opts]"
  then show "\<exists>content mid reg'.
          fs (joinPath svc [filePath opts]) = None
          \<and> renderAsync svc ''config'' (input opts) = Inr content
          \<and> importInserted (configImport opts) reg mid
          \<and> exportElementAppended (fileNameWithoutEx opts) mid reg'
          \<and> fs' = fs(joinPath svc [filePath opts] \<mapsto> content,
                      joinPath svc [''config/index.ts''] \<mapsto> reg')"
    using createConfigFile_effect by blast
next
  assume a: "createController svc opts fs = (Inr (), fs')
      \<and> fs (joinPath svc [''app'', ''module.ts'']) = Some reg
      \<and> (\<exists>n i. moduleProperty ''controllers'' reg = Inr (Some (PropertyAssignment n i)))
      \<and> parseElements svc (controllerName (input opts)) = Inr [controllerName (input opts)]"
  then obtain n i where "moduleProperty ''controllers'' reg = Inr (Some (PropertyAssignment n i))"
    by blast
  with a show "\<exists>content mid reg'.
          fs (joinPath svc [filePath opts]) = None
          \<and> renderAsync svc ''controller'' (input opts) = Inr content
          \<and> moduleElementAppended ''controllers'' (controllerName (input opts)) reg mid
          \<and> importInserted (controllerImport opts) mid reg'
          \<and> fs' = fs(joinPath svc [filePath opts] \<mapsto> content,
                      joinPath svc [''app'', ''module.ts''] \<mapsto> reg')"
    unfolding createController_generic by (intro moduleGenerator_effect) auto
next
  assume a: "createService svc opts fs = (Inr (), fs')
      \<and> fs (joinPath svc [''app'', ''module.ts'']) = Some reg
      \<and> (\<exists>n i. moduleProperty ''providers'' reg = Inr (Some (PropertyAssignment n i)))
      \<and> parseElements svc (className (input opts)) = Inr [className (input opts)]"
  then obtain n i where "moduleProperty ''providers'' reg = Inr (Some (PropertyAssignment n i))"
    by blast
  with a show "\<exists>content mid reg'.
          fs (joinPath svc [filePath opts]) = None
          \<and> renderAsync svc ''service'' (input opts) = Inr content
          \<and> moduleElementAppended ''providers'' (className (input opts)) reg mid
          \<and> importInserted (serviceImport opts) mid reg'
          \<and> fs' = fs(joinPath svc [filePath opts] \<mapsto> content,
                      joinPath svc [''app'', ''module.ts''] \<mapsto> reg')"
    unfolding createService_generic by (intro moduleGenerator_effect) auto
next
  assume a: "createRepo svc opts fs = (Inr (), fs')
      \<and> fs (joinPath svc [''app'', ''module.ts'']) = Some reg
      \<and> (\<exists>n i. moduleProperty ''providers'' reg = Inr (Some (PropertyAssignment n i)))
      \<and> parseElements svc (providerBinding (repoToken opts) (className (input opts)))
          = Inr [providerBinding (repoToken opts) (className (input opts))]"
  then obtain n i where "moduleProperty ''providers'' reg = Inr (Some (PropertyAssignment n i))"
    by blast
  with a show "\<exists>content mid reg'.
          fs (joinPath svc [filePath opts]) = None
          \<and> renderAsync svc ''repositoryDB'' (input opts) = Inr content
          \<and> moduleElementAppended ''providers''
               (providerBinding (repoToken opts) (className (input opts))) reg mid
          \<and> importInserted (repoImport opts) mid reg'
          \<and> fs' = fs(joinPath svc [filePath opts] \<mapsto> content,
                      joinPath svc [''app'', ''module.ts''] \<mapsto> reg')"
    unfolding createRepo_generic by (intro moduleGenerator_effect) auto
qed

theorem registering_generation_effect_witness:
  "fst (createConfigFile sampleService sampleOptions sampleDisk) = Inr ()
   \<and> fst (createController sampleService sampleOptions sampleDisk) = Inr ()
   \<and> fst (createService sampleService sampleOptions sampleDisk) = Inr ()
   \<and> fst (createRepo sampleService sampleOptions sampleDisk) = Inr ()
   \<and> parseElements sampleService ''widget'' = Inr [''widget'']
   \<and> parseElements sampleService ''WidgetController'' = Inr [''WidgetController'']
   \<and> parseElements sampleService ''WidgetRepository'' = Inr [''WidgetRepository'']
   \<and> parseElements sampleService (providerBinding ''WIDGET_REPO'' ''WidgetRepository'')
       = Inr [providerBinding ''WIDGET_REPO'' ''WidgetRepository'']
   \<and> (\<exists>mid reg'.
         importInserted (configImport sampleOptions) sampleIndex mid
         \<and> exportElementAppended ''widget'' mid reg'
         \<and> snd (createConfigFile sampleService sampleOptions sampleDisk)
             = sampleDisk(''/app/controllers/widget.ts'' \<mapsto> sampleContent ''config'',
                          ''/config/index.ts'' \<mapsto> reg'))
   \<and> (\<exists>mid reg'.
         moduleElementAppended ''controllers'' ''WidgetController'' (moduleWith sampleObject) mid
         \<and> importInserted (controllerImport sampleOptions) mid reg'
         \<and> snd (createController sampleService sampleOptions sampleDisk)
             = sampleDisk(''/app/controllers/widget.ts'' \<mapsto> sampleContent ''controller'',
                          ''/app/module.ts'' \<mapsto> reg'))
   \<and> (\<exists>mid reg'.
         moduleElementAppended ''providers'' ''WidgetRepository'' (moduleWith sampleObject) mid
         \<and> importInserted (serviceImport sampleOptions) mid reg'
         \<and> snd (createService sampleService sampleOptions sampleDisk)
             = sampleDisk(''/app/controllers/widget.ts'' \<mapsto> sampleContent ''service'',
                          ''/app/module.ts'' \<mapsto> reg'))
   \<and> (\<exists>mid reg'.
         moduleElementAppended ''providers''
           (providerBinding ''WIDGET_REPO'' ''WidgetRepository'') (moduleWith sampleObject) mid
         \<and> importInserted (repoImport sampleOptions) mid reg'
         \<and> snd (createRepo sampleService sampleOptions sampleDisk)
             = sampleDisk(''/app/controllers/widget.ts'' \<mapsto> sampleContent ''repositoryDB'',
                          ''/app/module.ts'' \<mapsto> reg'))"
proof -
  have p: "joinPath sampleService [filePath sampleOptions] = ''/app/controllers/widget.ts''"
          "joinPath sampleService [''app'', ''module.ts''] = ''/app/module.ts''"
          "joinPath sampleService [''config/index.ts''] = ''/config/index.ts''"
    by (simp_all add: sample_defs)
  have v: "fileNameWithoutEx sampleOptions = ''widget''"
          "controllerName (input sampleOptions) = ''WidgetController''"
          "className (input sampleOptions) = ''WidgetRepository''"
          "repoToken sampleOptions = ''WIDGET_REPO''"
    by (simp_all add: sample_defs)
  have r: "renderAsync sampleService n (input sampleOptions) = Inr (sampleContent n)" for n
    by (simp add: sample_defs)
  have i: "sampleDisk ''/config/index.ts'' = Some sampleIndex"
    and m: "sampleDisk ''/app/module.ts'' = Some (moduleWith sampleObject)"
    by (simp_all add: sampleDisk_def)
  have x: "\<exists>e. ExportAssignment False e \<in> set sampleIndex"
    by (auto simp: sampleIndex_def)
  have c: "\<exists>n i. moduleProperty ''controllers'' (moduleWith sampleObject)
                   = Inr (Some (PropertyAssignment n i))"
    and s: "\<exists>n i. moduleProperty ''providers'' (moduleWith sampleObject)
                   = Inr (Some (PropertyAssignment n i))"
    by (simp_all add: sample_defs lookup_defs)
  have 1: "fst (createConfigFile sampleService sampleOptions sampleDisk) = Inr ()"
    and 2: "fst (createController sampleService sampleOptions sampleDisk) = Inr ()"
    and 3: "fst (createService sampleService sampleOptions sampleDisk) = Inr ()"
    and 4: "fst (createRepo sampleService sampleOptions sampleDisk) = Inr ()"
    by (simp_all add: gen_defs io_defs sample_defs lookup_defs)
  have pw: "parseElements sampleService ''widget'' = Inr [''widget'']"
    and pc: "parseElements sampleService ''WidgetController'' = Inr [''WidgetController'']"
    and ps: "parseElements sampleService ''WidgetRepository'' = Inr [''WidgetRepository'']"
    and pb: "parseElements sampleService (providerBinding ''WIDGET_REPO'' ''WidgetRepository'')
               = Inr [providerBinding ''WIDGET_REPO'' ''WidgetRepository'']"
    by (simp_all add: sample_defs providerBinding_def)
  have 5: "\<exists>mid reg'.
         importInserted (configImport sampleOptions) sampleIndex mid
         \<and> exportElementAppended ''widget'' mid reg'
         \<and> snd (createConfigFile sampleService sampleOptions sampleDisk)
             = sampleDisk(''/app/controllers/widget.ts'' \<mapsto> sampleContent ''config'',
                          ''/config/index.ts'' \<mapsto> reg')"
    using registering_generation_effect
            [where svc = sampleService and opts = sampleOptions and fs = sampleDisk
               and fs' = "snd (createConfigFile sampleService sampleOptions sampleDisk)"
               and reg = sampleIndex, THEN conjunct1]
          1 i x pw
    unfolding p v r by (auto simp: prod_eq_iff)
  have 6: "\<exists>mid reg'.
         moduleElementAppended ''controllers'' ''WidgetController'' (moduleWith sampleObject) mid
         \<and> importInserted (controllerImport sampleOptions) mid reg'
         \<and> snd (createController sampleService sampleOptions sampleDisk)
             = sampleDisk(''/app/controllers/widget.ts'' \<mapsto> sampleContent ''controller'',
                          ''/app/module.ts'' \<mapsto> reg')"
    using registering_generation_effect
            [where svc = sampleService and opts = sampleOptions and fs = sampleDisk
               and fs' = "snd (createController sampleService sampleOptions sampleDisk)"
               and reg = "moduleWith sampleObject", THEN conjunct2, THEN conjunct1]
          2 m c pc
    unfolding p v r by (auto simp: prod_eq_iff)
  have 7: "\<exists>mid reg'.
         moduleElementAppended ''providers'' ''WidgetRepository'' (moduleWith sampleObject) mid
         \<and> importInserted (serviceImport sampleOptions) mid reg'
         \<and> snd (createService sampleService sampleOptions sampleDisk)
             = sampleDisk(''/app/controllers/widget.ts'' \<mapsto> sampleContent ''service'',
                          ''/app/module.ts'' \<mapsto> reg')"
    using registering_generation_effect
            [where svc = sampleService and opts = sampleOptions and fs = sampleDisk
               and fs' = "snd (createService sampleService sampleOptions sampleDisk)"
               and reg = "moduleWith sampleObject", THEN conjunct2, THEN conjunct2, THEN conjunct1]
          3 m s ps
    unfolding p v r by (auto simp: prod_eq_iff)
  have 8: "\<exists>mid reg'.
         moduleElementAppended ''providers''
           (providerBinding ''WIDGET_REPO'' ''WidgetRepository'') (moduleWith sampleObject) mid
         \<and> importInserted (repoImport sampleOptions) mid reg'
         \<and> snd (createRepo sampleService sampleOptions sampleDisk)
             = sampleDisk(''/app/controllers/widget.ts'' \<mapsto> sampleContent ''repositoryDB'',
                          ''/app/module.ts'' \<mapsto> reg')"
    using registering_generation_effect
            [where svc = sampleService and opts = sampleOptions and fs = sampleDisk
               and fs' = "snd (createRepo sampleService sampleOptions sampleDisk)"
               and reg = "moduleWith sampleObject", THEN conjunct2, THEN conjunct2, THEN conjunct2]
          4 m s pb
    unfolding p v r by (auto simp: prod_eq_iff)
  from 1 2 3 4 pw pc ps pb 5 6 7 8 show ?thesis by blast
qed

theorem registration_without_array_counterexample:
  "fst (createController sampleService sampleOptions
          [''/app/module.ts'' \<mapsto> moduleWith [PropertyAssignment ''providers'' (ArrayLiteralExpression [])]])
     = Inr ()
   \<and> snd (createController sampleService sampleOptions
          [''/app/module.ts'' \<mapsto> moduleWith [PropertyAssignment ''providers'' (ArrayLiteralExpression [])]])
        ''/app/module.ts''
     = Some [ImportDeclaration
               \<lparr>defaultImport = None, namedImports = [''Module''],
                moduleSpecifier = ''@nestjs/common''\<rparr>,
             ImportDeclaration
               \<lparr>defaultImport = None, namedImports = [''WidgetController''],
                moduleSpecifier = ''./controllers/widget''\<rparr>,
             OtherStatement ''const x = 1;'',
             ClassDeclaration
               \<lparr>cname = Some ''AppModule'',
                decorators =
                  [\<lparr>decoratorName = ''Module'',
                    arguments =
                      [ObjectLiteralExpression
                         [PropertyAssignment ''providers'' (ArrayLiteralExpression [])]]\<rparr>],
                cbody = ''{}''\<rparr>]"
  by (simp add: gen_defs io_defs sample_defs lookup_defs)

section \<open>A property of the wrong shape, a property that is not there\<close>

lemma moduleGenerator_wrong_kind:
  assumes reg: "fs (joinPath svc [''app'', ''module.ts'']) = Some reg"
      and pa: "moduleProperty prop reg = Inr (Some (PropertyAssignment n i))"
      and na: "\<forall>es. i \<noteq> ArrayLiteralExpression es"
  shows "(\<exists>err. fst (moduleGenerator template prop e imp svc opts fs) = Inl err)
         \<and> snd (moduleGenerator template prop e imp svc opts fs) (joinPath svc [''app'', ''module.ts''])
             = Some reg"
proof -
  have "\<exists>err. fst (moduleGenerator template prop e imp svc opts fs) = Inl err"
  proof (cases "fs (joinPath svc [filePath opts]) = None")
    case False
    then show ?thesis by (simp add: moduleGenerator_def io_defs)
  next
    case True
    show ?thesis
    proof (cases "renderAsync svc template (input opts)")
      case (Inl err)
      with True show ?thesis by (simp add: moduleGenerator_def io_defs)
    next
      case (Inr content)
      from moduleProperty_InrD[OF pa] obtain mo where
        mo: "moduleObjectLiteral reg = Inr mo"
            "map_option fst (getProperty prop mo) = Some (PropertyAssignment n i)"
        by blast
      have "appendIfPropertyAssignment svc (getProperty prop mo) e reg = Inl WrongKindError"
        using mo(2) na by (rule append_wrong_kind)
      moreover from True reg
      have "joinPath svc [''app'', ''module.ts''] \<noteq> joinPath svc [filePath opts]" by auto
      ultimately show ?thesis
        using True Inr reg mo(1) by (simp add: moduleGenerator_def io_defs Let_def)
    qed
  qed
  then obtain err where
    "fst (moduleGenerator template prop e imp svc opts fs) = Inl err" ..
  with reg have
    "snd (moduleGenerator template prop e imp svc opts fs) (joinPath svc [''app'', ''module.ts''])
       = Some reg"
    by (rule moduleGenerator_unchanged_registry)
  with \<open>fst (moduleGenerator template prop e imp svc opts fs) = Inl err\<close>
  show ?thesis by blast
qed

lemma moduleGenerator_skips:
  assumes free: "fs (joinPath svc [filePath opts]) = None"
      and r: "renderAsync svc template (input opts) = Inr content"
      and reg: "fs (joinPath svc [''app'', ''module.ts'']) = Some reg"
      and m: "moduleProperty prop reg = Inr m"
      and np: "\<forall>n i. m \<noteq> Some (PropertyAssignment n i)"
      and ni: "defaultImport imp = None"
  shows "\<exists>reg'. importInserted imp reg reg'
           \<and> moduleGenerator template prop e imp svc opts fs =
               (Inr (), fs(joinPath svc [filePath opts] \<mapsto> content,
                           joinPath svc [''app'', ''module.ts''] \<mapsto> reg'))"
proof -
  from moduleProperty_InrD[OF m] obtain mo where
    mo: "moduleObjectLiteral reg = Inr mo" "map_option fst (getProperty prop mo) = m"
    by blast
  from mo(2) np have "\<forall>n i. map_option fst (getProperty prop mo) \<noteq> Some (PropertyAssignment n i)"
    by simp
  from append_skipped[OF this] moduleGenerator_run[OF free r reg mo(1) ni]
  have "moduleGenerator template prop e imp svc opts fs =
          (Inr (), fs(joinPath svc [filePath opts] \<mapsto> content,
                      joinPath svc [''app'', ''module.ts''] \<mapsto> insertImportDeclaration imp reg))"
    by simp
  with importInserted_add[of imp reg] show ?thesis by blast
qed




section \<open>No rollback\<close>

text \<open>
  C7. When a controller, service or repository generation raises after the guard found the
  target path free and the template rendered, the disk it leaves is the old disk with the
  new file added: the new file stays, and no other path, so no registry file that was
  there, has changed.
\<close>

theorem failed_registration_keeps_new_file:
  "(createController svc opts fs = (Inl err, fs')
      \<and> fs (joinPath svc [filePath opts]) = None
      \<and> renderAsync svc ''controller'' (input opts) = Inr content \<longrightarrow>
      fs' = fs(joinPath svc [filePath opts] \<mapsto> content))
   \<and> (createService svc opts fs = (Inl err, fs')
      \<and> fs (joinPath svc [filePath opts]) = None
      \<and> renderAsync svc ''service'' (input opts) = Inr content \<longrightarrow>
      fs' = fs(joinPath svc [filePath opts] \<mapsto> content))
   \<and> (createRepo svc opts fs = (Inl err, fs')
      \<and> fs (joinPath svc [filePath opts]) = None
      \<and> renderAsync svc ''repositoryDB'' (input opts) = Inr content \<longrightarrow>
      fs' = fs(joinPath svc [filePath opts] \<mapsto> content))"
  unfolding createController_generic createService_generic createRepo_generic
  by (intro conjI impI; elim conjE; rule moduleGenerator_failure; assumption)

theorem failed_registration_keeps_new_file_witness:
  "[''/config/index.ts'' \<mapsto> sampleIndex] (joinPath sampleService [filePath sampleOptions]) = None
   \<and> createController sampleService sampleOptions [''/config/index.ts'' \<mapsto> sampleIndex]
     = (Inl (FileNotFoundError ''/app/module.ts''),
        [''/config/index.ts'' \<mapsto> sampleIndex,
         ''/app/controllers/widget.ts'' \<mapsto> sampleContent ''controller''])
   \<and> createService sampleService sampleOptions [''/config/index.ts'' \<mapsto> sampleIndex]
     = (Inl (FileNotFoundError ''/app/module.ts''),
        [''/config/index.ts'' \<mapsto> sampleIndex,
         ''/app/controllers/widget.ts'' \<mapsto> sampleContent ''service''])
   \<and> createRepo sampleService sampleOptions [''/config/index.ts'' \<mapsto> sampleIndex]
     = (Inl (FileNotFoundError ''/app/module.ts''),
        [''/config/index.ts'' \<mapsto> sampleIndex,
         ''/app/controllers/widget.ts'' \<mapsto> sampleContent ''repositoryDB''])
   \<and> [''/config/index.ts'' \<mapsto> sampleIndex, ''/app/controllers/widget.ts'' \<mapsto> sampleContent ''controller'']
       = [''/config/index.ts'' \<mapsto> sampleIndex]
           (joinPath sampleService [filePath sampleOptions] \<mapsto> sampleContent ''controller'')
   \<and> [''/config/index.ts'' \<mapsto> sampleIndex, ''/app/controllers/widget.ts'' \<mapsto> sampleContent ''service'']
       = [''/config/index.ts'' \<mapsto> sampleIndex]
           (joinPath sampleService [filePath sampleOptions] \<mapsto> sampleContent ''service'')
   \<and> [''/config/index.ts'' \<mapsto> sampleIndex, ''/app/controllers/widget.ts'' \<mapsto> sampleContent ''repositoryDB'']
       = [''/config/index.ts'' \<mapsto> sampleIndex]
           (joinPath sampleService [filePath sampleOptions] \<mapsto> sampleContent ''repositoryDB'')"
proof -
  let ?fs = "[''/config/index.ts'' \<mapsto> sampleIndex]"
  let ?left = "\<lambda>t. [''/config/index.ts'' \<mapsto> sampleIndex,
                     ''/app/controllers/widget.ts'' \<mapsto> sampleContent t]"
  have free: "?fs (joinPath sampleService [filePath sampleOptions]) = None"
    by (simp add: sample_defs)
  have r: "renderAsync sampleService t (input sampleOptions) = Inr (sampleContent t)" for t
    by (simp add: sample_defs)
  have 1: "createController sampleService sampleOptions ?fs
             = (Inl (FileNotFoundError ''/app/module.ts''), ?left ''controller'')"
    and 2: "createService sampleService sampleOptions ?fs
             = (Inl (FileNotFoundError ''/app/module.ts''), ?left ''service'')"
    and 3: "createRepo sampleService sampleOptions ?fs
             = (Inl (FileNotFoundError ''/app/module.ts''), ?left ''repositoryDB'')"
    by (simp_all add: gen_defs io_defs sample_defs)
  from failed_registration_keeps_new_file
         [where svc = sampleService and opts = sampleOptions and fs = ?fs
            and fs' = "?left ''controller''" and err = "FileNotFoundError ''/app/module.ts''"
            and content = "sampleContent ''controller''", THEN conjunct1]
       1 free r
  have 4: "?left ''controller''
             = ?fs(joinPath sampleService [filePath sampleOptions] \<mapsto> sampleContent ''controller'')"
    by blast
  from failed_registration_keeps_new_file
         [where svc = sampleService and opts = sampleOptions and fs = ?fs
            and fs' = "?left ''service''" and err = "FileNotFoundError ''/app/module.ts''"
            and content = "sampleContent ''service''", THEN conjunct2, THEN conjunct1]
       2 free r
  have 5: "?left ''service''
             = ?fs(joinPath sampleService [filePath sampleOptions] \<mapsto> sampleContent ''service'')"
    by blast
  from failed_registration_keeps_new_file
         [where svc = sampleService and opts = sampleOptions and fs = ?fs
            and fs' = "?left ''repositoryDB''" and err = "FileNotFoundError ''/app/module.ts''"
            and content = "sampleContent ''repositoryDB''", THEN conjunct2, THEN conjunct2]
       3 free r
  have 6: "?left ''repositoryDB''
             = ?fs(joinPath sampleService [filePath sampleOptions] \<mapsto> sampleContent ''repositoryDB'')"
    by blast
  from free 1 2 3 4 5 6 show ?thesis by blast
qed

section \<open>Order of registration\<close>

lemma exportArray_located:
  "exportArray sf =
     (case located (exportAssignmentWhere (\<lambda>b. b = False)) sf of
        Some (b, ArrayLiteralExpression es) \<Rightarrow> Some es
      | _ \<Rightarrow> None)"
  by (simp add: exportArray_def getExportAssignment_def located_def
      split: option.splits prod.splits expression.splits)

lemma exportArray_insertImportDeclaration:
  "exportArray (insertImportDeclaration s sf) = exportArray sf"
proof -
  have "located (exportAssignmentWhere (\<lambda>b. b = False)) (insertImportDeclaration s sf)
          = located (exportAssignmentWhere (\<lambda>b. b = False))
              (take (importInsertIndex sf) sf @ drop (importInsertIndex sf) sf)"
    unfolding insertImportDeclaration_def by (rule located_insert) simp
  then show ?thesis by (simp add: exportArray_located)
qed

lemma append_arrays:
  assumes mo: "moduleObjectLiteral reg = Inr mo"
      and ap: "appendIfPropertyAssignment svc (getProperty prop mo) e reg = Inr mid"
  shows "moduleArray q mid =
           (if q = prop then map_option (\<lambda>es. es @ elementsRead svc e) (moduleArray prop reg)
            else moduleArray q reg)"
proof (cases "\<exists>n i. map_option fst (getProperty prop mo) = Some (PropertyAssignment n i)")
  case True
  then obtain n i where g: "map_option fst (getProperty prop mo) = Some (PropertyAssignment n i)"
    by blast
  from append_parsed[OF g ap] obtain es new where
    i: "i = ArrayLiteralExpression es" and pe: "parseElements svc e = Inr new"
    by blast
  note g' = g[unfolded i]
  from append_found[OF mo g' pe] ap have
    new: "\<forall>q. moduleProperty q mid =
           (if q = prop
            then Inr (Some (PropertyAssignment prop (ArrayLiteralExpression (es @ new))))
            else moduleProperty q reg)"
    by auto
  from moduleProperty_Inr[OF mo, of "prop"] g i have
    old: "moduleProperty prop reg = Inr (Some (PropertyAssignment n (ArrayLiteralExpression es)))"
    by simp
  from new old pe show ?thesis by (simp add: moduleArray_def elementsRead_def)
next
  case False
  then have "\<forall>n i. map_option fst (getProperty prop mo) \<noteq> Some (PropertyAssignment n i)" by blast
  from append_skipped[OF this, of svc e reg] ap have same: "mid = reg" by simp
  from False moduleProperty_Inr[OF mo, of "prop"] have "moduleArray prop reg = None"
    by (auto simp: moduleArray_def split: option.splits object_member.splits expression.splits)
  with same show ?thesis by simp
qed

lemma moduleGenerator_step:
  assumes ok: "moduleGenerator template prop e imp svc opts fs = (Inr (), fs')"
      and reg: "fs (joinPath svc [''app'', ''module.ts'']) = Some reg"
      and ni: "defaultImport imp = None"
  shows "\<exists>reg'. fs' (joinPath svc [''app'', ''module.ts'']) = Some reg'
           \<and> (\<forall>q. moduleArray q reg' =
                 (if q = prop then map_option (\<lambda>es. es @ elementsRead svc e) (moduleArray prop reg)
                  else moduleArray q reg))"
proof -
  from moduleGenerator_success[OF ok reg ni] obtain content mo mid where
    s: "moduleObjectLiteral reg = Inr mo"
       "appendIfPropertyAssignment svc (getProperty prop mo) e reg = Inr mid"
       "fs' = fs(joinPath svc [filePath opts] \<mapsto> content,
                 joinPath svc [''app'', ''module.ts''] \<mapsto> insertImportDeclaration imp mid)"
    by blast
  have "moduleArray q (insertImportDeclaration imp mid) = moduleArray q mid" for q
    by (simp add: moduleArray_def moduleProperty_insertImportDeclaration)
  with append_arrays[OF s(1,2)] s(3) show ?thesis by simp
qed

lemma moduleGenerator_frame:
  assumes "q \<noteq> joinPath svc [filePath opts]" "q \<noteq> joinPath svc [''app'', ''module.ts'']"
  shows "snd (moduleGenerator template prop e imp svc opts fs) q = fs q"
  using assms
  by (auto simp: moduleGenerator_def io_defs Let_def split: sum.splits option.splits)

lemma moduleGenerator_free:
  "moduleGenerator template prop e imp svc opts fs = (Inr (), fs') \<Longrightarrow>
     fs (joinPath svc [filePath opts]) = None"
  by (auto simp: moduleGenerator_def checkIfFileAlreadyExists_def split: if_splits)

lemma createConfigFile_frame:
  assumes "q \<noteq> joinPath svc [filePath opts]" "q \<noteq> joinPath svc [''config/index.ts'']"
  shows "snd (createConfigFile svc opts fs) q = fs q"
  using assms
  by (auto simp: createConfigFile_def io_defs Let_def split: sum.splits option.splits)

lemma plain_generators_frame:
  assumes "q \<noteq> joinPath svc [filePath opts]"
  shows "snd (createException svc opts fs) q = fs q" "snd (createModel svc opts fs) q = fs q"
  using assms
  by (auto simp: createException_def createModel_def io_defs split: sum.splits)

lemma plain_generators_free:
  "createException svc opts fs = (Inr (), fs') \<Longrightarrow> fs (joinPath svc [filePath opts]) = None"
  "createModel svc opts fs = (Inr (), fs') \<Longrightarrow> fs (joinPath svc [filePath opts]) = None"
  by (auto simp: createException_def createModel_def checkIfFileAlreadyExists_def split: if_splits)

lemma createConfigFile_step:
  assumes ok: "createConfigFile svc opts fs = (Inr (), fs')"
      and reg: "fs (joinPath svc [''config/index.ts'']) = Some reg"
  shows "\<exists>reg'. fs' (joinPath svc [''config/index.ts'']) = Some reg'
           \<and> exportArray reg' =
               map_option (\<lambda>es. es @ elementsRead svc (fileNameWithoutEx opts)) (exportArray reg)"
proof -
  let ?mid = "insertImportDeclaration (configImport opts) reg"
  note free = createConfigFile_free[OF ok]
  with reg have ne: "joinPath svc [''config/index.ts''] \<noteq> joinPath svc [filePath opts]"
    by auto
  from createConfigFile_rendered[OF ok] obtain content where
    r: "renderAsync svc ''config'' (input opts) = Inr content" ..
  note run = ok[unfolded createConfigFile_run[OF free r reg]]
  show ?thesis
  proof (cases "getExportAssignment (\<lambda>b. b = False) ?mid")
    case None
    with run have "fs' = fs(joinPath svc [filePath opts] \<mapsto> content)"
      by (auto split: sum.splits)
    with reg ne have "fs' (joinPath svc [''config/index.ts'']) = Some reg" by simp
    moreover from None have "exportArray ?mid = None" by (simp add: exportArray_def)
    then have "exportArray reg = None" by (simp add: exportArray_insertImportDeclaration)
    ultimately show ?thesis by simp
  next
    case (Some h)
    obtain e put where h: "h = (e, put)" by (cases h)
    from getExportAssignment_shape[OF Some[unfolded h]] obtain pre post where
      sh: "?mid = pre @ ExportAssignment False e # post"
          "\<forall>z\<in>set pre. exportAssignmentWhere (\<lambda>b. b = False) z = None"
          "put = (\<lambda>e'. pre @ ExportAssignment False e' # post)"
      by blast
    from run[unfolded Some h] obtain es new where
      e: "e = ArrayLiteralExpression es"
      and pe: "parseElements svc (fileNameWithoutEx opts) = Inr new"
      and f: "fs' = fs(joinPath svc [filePath opts] \<mapsto> content,
                       joinPath svc [''config/index.ts''] \<mapsto> put (ArrayLiteralExpression (es @ new)))"
      by (auto simp: asArrayLiteralOrThrow_def addElement_def split: sum.splits expression.splits)
    have "exportArray ?mid = Some es"
      unfolding sh(1) e using sh(2) by (simp add: exportArray_located located_skip)
    then have old: "exportArray reg = Some es" by (simp add: exportArray_insertImportDeclaration)
    have new: "exportArray (put (ArrayLiteralExpression (es @ new))) = Some (es @ new)"
      unfolding sh(3) using sh(2) by (simp add: exportArray_located located_skip)
    from f old new pe show ?thesis by (simp add: elementsRead_def)
  qed
qed


lemma generate_step_module:
  assumes ok: "generate svc r fs = (Inr (), fs')"
      and ne: "joinPath svc [''config/index.ts''] \<noteq> joinPath svc [''app'', ''module.ts'']"
      and reg: "fs (joinPath svc [''app'', ''module.ts'']) = Some reg"
  shows "\<exists>reg'. fs' (joinPath svc [''app'', ''module.ts'']) = Some reg'
           \<and> (\<forall>q. moduleArray q reg' = map_option (\<lambda>es. es @ registered svc q r) (moduleArray q reg))"
proof -
  obtain k opts where r: "r = (k, opts)" by (cases r)
  have plain: ?thesis
    if free: "fs (joinPath svc [filePath opts]) = None"
      and frame: "fs' (joinPath svc [''app'', ''module.ts'']) = fs (joinPath svc [''app'', ''module.ts''])"
      and none: "\<forall>q. registered svc q r = []"
    using reg frame none by (simp add: option.map_ident)
  show ?thesis
  proof (cases k)
    case Configuration
    with ok r have c: "createConfigFile svc opts fs = (Inr (), fs')" by simp
    from createConfigFile_free[OF c] reg
    have "joinPath svc [''app'', ''module.ts''] \<noteq> joinPath svc [filePath opts]" by auto
    from createConfigFile_frame[OF this ne[symmetric], of fs] c createConfigFile_free[OF c]
    show ?thesis using r Configuration by (intro plain) simp_all
  next
    case Controller
    with ok r have "moduleGenerator ''controller'' ''controllers'' (controllerName (input opts))
                      (controllerImport opts) svc opts fs = (Inr (), fs')"
      by (simp add: createController_generic)
    from moduleGenerator_step[OF this reg] r Controller show ?thesis
      by (auto simp: option.map_ident)
  next
    case Service
    with ok r have "moduleGenerator ''service'' ''providers'' (className (input opts))
                      (serviceImport opts) svc opts fs = (Inr (), fs')"
      by (simp add: createService_generic)
    from moduleGenerator_step[OF this reg] r Service show ?thesis
      by (auto simp: option.map_ident)
  next
    case Exception
    with ok r have c: "createException svc opts fs = (Inr (), fs')" by simp
    from plain_generators_free(1)[OF c] reg
    have "joinPath svc [''app'', ''module.ts''] \<noteq> joinPath svc [filePath opts]" by auto
    from plain_generators_frame(1)[OF this, of fs] c plain_generators_free(1)[OF c]
    show ?thesis using r Exception by (intro plain) simp_all
  next
    case Repository
    with ok r have "moduleGenerator ''repositoryDB'' ''providers''
                      (providerBinding (repoToken opts) (className (input opts)))
                      (repoImport opts) svc opts fs = (Inr (), fs')"
      by (simp add: createRepo_generic)
    from moduleGenerator_step[OF this reg] r Repository show ?thesis
      by (auto simp: option.map_ident)
  next
    case Model
    with ok r have c: "createModel svc opts fs = (Inr (), fs')" by simp
    from plain_generators_free(2)[OF c] reg
    have "joinPath svc [''app'', ''module.ts''] \<noteq> joinPath svc [filePath opts]" by auto
    from plain_generators_frame(2)[OF this, of fs] c plain_generators_free(2)[OF c]
    show ?thesis using r Model by (intro plain) simp_all
  qed
qed

lemma generate_step_index:
  assumes ok: "generate svc r fs = (Inr (), fs')"
      and ne: "joinPath svc [''config/index.ts''] \<noteq> joinPath svc [''app'', ''module.ts'']"
      and reg: "fs (joinPath svc [''config/index.ts'']) = Some reg"
  shows "\<exists>reg'. fs' (joinPath svc [''config/index.ts'']) = Some reg'
           \<and> exportArray reg' = map_option (\<lambda>es. es @ exported svc r) (exportArray reg)"
proof -
  obtain k opts where r: "r = (k, opts)" by (cases r)
  have plain: ?thesis
    if frame: "fs' (joinPath svc [''config/index.ts'']) = fs (joinPath svc [''config/index.ts''])"
      and none: "exported svc r = []"
    using reg frame none by (simp add: option.map_ident)
  have viaModule: ?thesis
    if g: "moduleGenerator template p e imp svc opts fs = (Inr (), fs')" and none: "exported svc r = []"
    for template p e imp
  proof -
    from moduleGenerator_free[OF g] reg
    have "joinPath svc [''config/index.ts''] \<noteq> joinPath svc [filePath opts]" by auto
    from moduleGenerator_frame[OF this ne, of template p e imp fs] g none show ?thesis
      by (intro plain) simp_all
  qed
  show ?thesis
  proof (cases k)
    case Configuration
    with ok r have c: "createConfigFile svc opts fs = (Inr (), fs')" by simp
    from createConfigFile_step[OF c reg] r Configuration show ?thesis by simp
  next
    case Controller
    with ok r show ?thesis by (intro viaModule) (simp_all add: createController_generic)
  next
    case Service
    with ok r show ?thesis by (intro viaModule) (simp_all add: createService_generic)
  next
    case Exception
    with ok r have c: "createException svc opts fs = (Inr (), fs')" by simp
    from plain_generators_free(1)[OF c] reg
    have "joinPath svc [''config/index.ts''] \<noteq> joinPath svc [filePath opts]" by auto
    from plain_generators_frame(1)[OF this, of fs] c show ?thesis
      using r Exception by (intro plain) simp_all
  next
    case Repository
    with ok r show ?thesis by (intro viaModule) (simp_all add: createRepo_generic)
  next
    case Model
    with ok r have c: "createModel svc opts fs = (Inr (), fs')" by simp
    from plain_generators_free(2)[OF c] reg
    have "joinPath svc [''config/index.ts''] \<noteq> joinPath svc [filePath opts]" by auto
    from plain_generators_frame(2)[OF this, of fs] c show ?thesis
      using r Model by (intro plain) simp_all
  qed
qed

lemma generateAll_ConsD:
  assumes "generateAll svc (r # rs) fs = (Inr (), fs')"
  shows "\<exists>fs1. generate svc r fs = (Inr (), fs1) \<and> generateAll svc rs fs1 = (Inr (), fs')"
  using assms by (auto split: prod.splits sum.splits)

lemma generateAll_module:
  assumes "generateAll svc reqs fs = (Inr (), fs')"
      and "joinPath svc [''config/index.ts''] \<noteq> joinPath svc [''app'', ''module.ts'']"
      and "fs (joinPath svc [''app'', ''module.ts'']) = Some reg"
  shows "\<exists>reg'. fs' (joinPath svc [''app'', ''module.ts'']) = Some reg'
           \<and> (\<forall>q. moduleArray q reg' =
                 map_option (\<lambda>es. es @ concat (map (registered svc q) reqs)) (moduleArray q reg))"
  using assms
proof (induction reqs arbitrary: fs reg)
  case Nil
  then show ?case by (simp add: option.map_ident)
next
  case (Cons r rs)
  from generateAll_ConsD[OF Cons.prems(1)] obtain fs1 where
    s: "generate svc r fs = (Inr (), fs1)" "generateAll svc rs fs1 = (Inr (), fs')"
    by blast
  from generate_step_module[OF s(1) Cons.prems(2,3)] obtain reg1 where
    r1: "fs1 (joinPath svc [''app'', ''module.ts'']) = Some reg1"
        "\<forall>q. moduleArray q reg1 = map_option (\<lambda>es. es @ registered svc q r) (moduleArray q reg)"
    by blast
  from Cons.IH[OF s(2) Cons.prems(2) r1(1)] obtain reg' where
    r': "fs' (joinPath svc [''app'', ''module.ts'']) = Some reg'"
        "\<forall>q. moduleArray q reg' =
               map_option (\<lambda>es. es @ concat (map (registered svc q) rs)) (moduleArray q reg1)"
    by blast
  from r1(2) r'(2) have
    "\<forall>q. moduleArray q reg' =
           map_option (\<lambda>es. es @ concat (map (registered svc q) (r # rs))) (moduleArray q reg)"
    by (simp add: option.map_comp comp_def)
  with r'(1) show ?case by blast
qed

lemma generateAll_index:
  assumes "generateAll svc reqs fs = (Inr (), fs')"
      and "joinPath svc [''config/index.ts''] \<noteq> joinPath svc [''app'', ''module.ts'']"
      and "fs (joinPath svc [''config/index.ts'']) = Some reg"
  shows "\<exists>reg'. fs' (joinPath svc [''config/index.ts'']) = Some reg'
           \<and> exportArray reg' = map_option (\<lambda>es. es @ concat (map (exported svc) reqs)) (exportArray reg)"
  using assms
proof (induction reqs arbitrary: fs reg)
  case Nil
  then show ?case by (simp add: option.map_ident)
next
  case (Cons r rs)
  from generateAll_ConsD[OF Cons.prems(1)] obtain fs1 where
    s: "generate svc r fs = (Inr (), fs1)" "generateAll svc rs fs1 = (Inr (), fs')"
    by blast
  from generate_step_index[OF s(1) Cons.prems(2,3)] obtain reg1 where
    r1: "fs1 (joinPath svc [''config/index.ts'']) = Some reg1"
        "exportArray reg1 = map_option (\<lambda>es. es @ exported svc r) (exportArray reg)"
    by blast
  from Cons.IH[OF s(2) Cons.prems(2) r1(1)] obtain reg' where
    r': "fs' (joinPath svc [''config/index.ts'']) = Some reg'"
        "exportArray reg' = map_option (\<lambda>es. es @ concat (map (exported svc) rs)) (exportArray reg1)"
    by blast
  from r1(2) r'(2) have
    "exportArray reg' = map_option (\<lambda>es. es @ concat (map (exported svc) (r # rs))) (exportArray reg)"
    by (simp add: option.map_comp comp_def)
  with r'(1) show ?case by blast
qed

lemma registered_handed:
  assumes "\<forall>t\<in>set (handed name r). parseElements svc t = Inr [t]"
  shows "registered svc name r = handed name r"
proof -
  obtain k opts where r: "r = (k, opts)" by (cases r)
  from assms show ?thesis unfolding r by (cases k) (auto simp: elementsRead_def)
qed

lemma exported_handed:
  assumes "\<forall>t\<in>set (handedToIndex r). parseElements svc t = Inr [t]"
  shows "exported svc r = handedToIndex r"
proof -
  obtain k opts where r: "r = (k, opts)" by (cases r)
  from assms show ?thesis unfolding r by (cases k) (auto simp: elementsRead_def)
qed

lemma registered_handed_all:
  assumes "\<forall>r\<in>set reqs. \<forall>t\<in>set (handed name r). parseElements svc t = Inr [t]"
  shows "concat (map (registered svc name) reqs) = concat (map (handed name) reqs)"
  using assms by (induction reqs) (simp_all add: registered_handed)

lemma exported_handed_all:
  assumes "\<forall>r\<in>set reqs. \<forall>t\<in>set (handedToIndex r). parseElements svc t = Inr [t]"
  shows "concat (map (exported svc) reqs) = concat (map handedToIndex reqs)"
  using assms by (induction reqs) (simp_all add: exported_handed)

text \<open>
  C9. Take any sequence of generator calls that all succeed, each on the disk the call
  before it left, the two registry files being different paths. If the module file was on
  the disk at the start, then for every property name the array the module file holds under
  it at the end is the array it held at the start followed by what the calls that register
  under that name appended, in the order of the calls; when every text handed over is read
  as the one element it spells, as a symbol name is, these are the handed texts themselves,
  in the order of the calls. The same holds for the array of the default export of the
  configuration index.
\<close>

theorem registration_order_is_invocation_order:
  assumes "generateAll svc reqs fs = (Inr (), fs')"
      and "joinPath svc [''config/index.ts''] \<noteq> joinPath svc [''app'', ''module.ts'']"
  shows "(\<forall>reg. fs (joinPath svc [''app'', ''module.ts'']) = Some reg \<longrightarrow>
            (\<exists>reg'. fs' (joinPath svc [''app'', ''module.ts'']) = Some reg'
               \<and> (\<forall>name. moduleArray name reg' =
                     map_option (\<lambda>es. es @ concat (map (registered svc name) reqs))
                       (moduleArray name reg))
               \<and> (\<forall>name.
                     (\<forall>r\<in>set reqs. \<forall>t\<in>set (handed name r). parseElements svc t = Inr [t]) \<longrightarrow>
                     moduleArray name reg' =
                       map_option (\<lambda>es. es @ concat (map (handed name) reqs))
                         (moduleArray name reg))))
       \<and> (\<forall>reg. fs (joinPath svc [''config/index.ts'']) = Some reg \<longrightarrow>
            (\<exists>reg'. fs' (joinPath svc [''config/index.ts'']) = Some reg'
               \<and> exportArray reg' =
                   map_option (\<lambda>es. es @ concat (map (exported svc) reqs)) (exportArray reg)
               \<and> ((\<forall>r\<in>set reqs. \<forall>t\<in>set (handedToIndex r). parseElements svc t = Inr [t]) \<longrightarrow>
                   exportArray reg' =
                     map_option (\<lambda>es. es @ concat (map handedToIndex reqs)) (exportArray reg))))"
proof (intro conjI allI impI)
  fix reg
  assume "fs (joinPath svc [''app'', ''module.ts'']) = Some reg"
  from generateAll_module[OF assms this] obtain reg' where
    r: "fs' (joinPath svc [''app'', ''module.ts'']) = Some reg'"
       "\<forall>q. moduleArray q reg' =
              map_option (\<lambda>es. es @ concat (map (registered svc q) reqs)) (moduleArray q reg)"
    by blast
  have "moduleArray name reg' =
          map_option (\<lambda>es. es @ concat (map (handed name) reqs)) (moduleArray name reg)"
    if "\<forall>r\<in>set reqs. \<forall>t\<in>set (handed name r). parseElements svc t = Inr [t]" for name
    using r(2) registered_handed_all[OF that] by simp
  with r show "\<exists>reg'. fs' (joinPath svc [''app'', ''module.ts'']) = Some reg'
               \<and> (\<forall>name. moduleArray name reg' =
                     map_option (\<lambda>es. es @ concat (map (registered svc name) reqs))
                       (moduleArray name reg))
               \<and> (\<forall>name.
                     (\<forall>r\<in>set reqs. \<forall>t\<in>set (handed name r). parseElements svc t = Inr [t]) \<longrightarrow>
                     moduleArray name reg' =
                       map_option (\<lambda>es. es @ concat (map (handed name) reqs))
                         (moduleArray name reg))"
    by blast
next
  fix reg
  assume "fs (joinPath svc [''config/index.ts'']) = Some reg"
  from generateAll_index[OF assms this] obtain reg' where
    r: "fs' (joinPath svc [''config/index.ts'']) = Some reg'"
       "exportArray reg' =
          map_option (\<lambda>es. es @ concat (map (exported svc) reqs)) (exportArray reg)"
    by blast
  have "exportArray reg' =
          map_option (\<lambda>es. es @ concat (map handedToIndex reqs)) (exportArray reg)"
    if "\<forall>r\<in>set reqs. \<forall>t\<in>set (handedToIndex r). parseElements svc t = Inr [t]"
    using r(2) exported_handed_all[OF that] by simp
  with r show "\<exists>reg'. fs' (joinPath svc [''config/index.ts'']) = Some reg'
               \<and> exportArray reg' =
                   map_option (\<lambda>es. es @ concat (map (exported svc) reqs)) (exportArray reg)
               \<and> ((\<forall>r\<in>set reqs. \<forall>t\<in>set (handedToIndex r). parseElements svc t = Inr [t]) \<longrightarrow>
                   exportArray reg' =
                     map_option (\<lambda>es. es @ concat (map handedToIndex reqs)) (exportArray reg))"
    by blast
qed

theorem registration_order_is_invocation_order_witness:
  "fst (generateAll sampleService sampleRequests sampleDisk) = Inr ()
   \<and> joinPath sampleService [''config/index.ts''] \<noteq> joinPath sampleService [''app'', ''module.ts'']
   \<and> list_all (\<lambda>t. parseElements sampleService t = Inr [t])
         (concat (map (handed ''controllers'') sampleRequests)
          @ concat (map (handed ''providers'') sampleRequests)
          @ concat (map handedToIndex sampleRequests))
   \<and> (\<exists>reg'. snd (generateAll sampleService sampleRequests sampleDisk) ''/app/module.ts'' = Some reg'
         \<and> moduleArray ''controllers'' reg' = Some [''AppController'', ''aController'', ''eController'']
         \<and> moduleArray ''providers'' reg'
             = Some [''AppService'', ''bClass'', providerBinding ''TOKEN'' ''dClass''])
   \<and> (\<exists>reg'. snd (generateAll sampleService sampleRequests sampleDisk) ''/config/index.ts'' = Some reg'
         \<and> exportArray reg' = Some [''app'', ''c''])"
proof -
  have 1: "fst (generateAll sampleService sampleRequests sampleDisk) = Inr ()"
    by (simp add: sampleRequests_def requestFor_def gen_defs io_defs sample_defs lookup_defs)
  then have ok: "generateAll sampleService sampleRequests sampleDisk
                   = (Inr (), snd (generateAll sampleService sampleRequests sampleDisk))"
    by (simp add: prod_eq_iff)
  have p: "joinPath sampleService [''app'', ''module.ts''] = ''/app/module.ts''"
          "joinPath sampleService [''config/index.ts''] = ''/config/index.ts''"
    by (simp_all add: sample_defs)
  have 2: "joinPath sampleService [''config/index.ts''] \<noteq> joinPath sampleService [''app'', ''module.ts'']"
    by (simp add: p)
  have m: "sampleDisk ''/app/module.ts'' = Some (moduleWith sampleObject)"
    and i: "sampleDisk ''/config/index.ts'' = Some sampleIndex"
    by (simp_all add: sampleDisk_def)
  have a: "moduleArray ''controllers'' (moduleWith sampleObject) = Some [''AppController'']"
          "moduleArray ''providers'' (moduleWith sampleObject) = Some [''AppService'']"
          "exportArray sampleIndex = Some [''app'']"
    by (simp_all add: sample_defs lookup_defs)
  have hc: "\<forall>r\<in>set sampleRequests. \<forall>t\<in>set (handed ''controllers'' r).
              parseElements sampleService t = Inr [t]"
    and hp: "\<forall>r\<in>set sampleRequests. \<forall>t\<in>set (handed ''providers'' r).
              parseElements sampleService t = Inr [t]"
    and hi: "\<forall>r\<in>set sampleRequests. \<forall>t\<in>set (handedToIndex r).
              parseElements sampleService t = Inr [t]"
    by (simp_all add: sampleRequests_def requestFor_def sample_defs providerBinding_def)
  have r: "concat (map (handed ''controllers'') sampleRequests) = [''aController'', ''eController'']"
          "concat (map (handed ''providers'') sampleRequests)
             = [''bClass'', providerBinding ''TOKEN'' ''dClass'']"
          "concat (map handedToIndex sampleRequests) = [''c'']"
    by (simp_all add: sampleRequests_def requestFor_def)
  note t = registration_order_is_invocation_order[OF ok 2, unfolded p]
  from t[THEN conjunct1] m obtain reg' where
    "snd (generateAll sampleService sampleRequests sampleDisk) ''/app/module.ts'' = Some reg'"
    "\<forall>name.
        (\<forall>r\<in>set sampleRequests. \<forall>t\<in>set (handed name r). parseElements sampleService t = Inr [t]) \<longrightarrow>
        moduleArray name reg' =
          map_option (\<lambda>es. es @ concat (map (handed name) sampleRequests))
            (moduleArray name (moduleWith sampleObject))"
    by blast
  with hc hp have 3: "\<exists>reg'. snd (generateAll sampleService sampleRequests sampleDisk) ''/app/module.ts'' = Some reg'
         \<and> moduleArray ''controllers'' reg' = Some [''AppController'', ''aController'', ''eController'']
         \<and> moduleArray ''providers'' reg'
             = Some [''AppService'', ''bClass'', providerBinding ''TOKEN'' ''dClass'']"
    by (simp add: a r)
  from t[THEN conjunct2] i obtain ireg' where
    "snd (generateAll sampleService sampleRequests sampleDisk) ''/config/index.ts'' = Some ireg'"
    "(\<forall>r\<in>set sampleRequests. \<forall>t\<in>set (handedToIndex r). parseElements sampleService t = Inr [t]) \<longrightarrow>
     exportArray ireg' =
        map_option (\<lambda>es. es @ concat (map handedToIndex sampleRequests)) (exportArray sampleIndex)"
    by blast
  with hi have 4: "\<exists>reg'. snd (generateAll sampleService sampleRequests sampleDisk) ''/config/index.ts'' = Some reg'
         \<and> exportArray reg' = Some [''app'', ''c'']"
    by (simp add: a r)
  have 5: "list_all (\<lambda>t. parseElements sampleService t = Inr [t])
         (concat (map (handed ''controllers'') sampleRequests)
          @ concat (map (handed ''providers'') sampleRequests)
          @ concat (map handedToIndex sampleRequests))"
    by (simp add: sampleRequests_def requestFor_def sample_defs providerBinding_def)
  from 1 2 5 3 4 show ?thesis by blast
qed

end
